theory Spec2Isabelle
  imports Main
begin

section \<open>The long-poll operations channel of the Kaa C++ client\<close>

text \<open>
  A shallow embedding of \<^verbatim>\<open>DefaultOperationLongPollChannel.cpp\<close>. The member
  variables of the class are the fields of the record \<open>channel\<close>. Every member function
  is a state transformer. A function that releases \<open>channelGuard_\<close> and acquires it again
  (or blocks in between) is cut at those points into pieces, and the pieces are scheduled
  one at a time by \<open>step\<close>, so that the pieces of the worker thread and of the calling
  threads interleave as the mutex allows. Calls into the collaborators (transport client,
  multiplexer, demultiplexer, channel manager, logger) are recorded in a trace, each entry
  together with the state of the mutex at the moment of the call; what a collaborator
  returns or throws is an input of the step (\<open>env\<close>).

  Taken as given: the channel manager passed to the constructor and the descriptor passed
  to \<^verbatim>\<open>setServer\<close> are not null; what a collaborator throws is a \<^verbatim>\<open>std::exception\<close>;
  the constructor of \<^verbatim>\<open>RsaEncoderDecoder\<close> returns. The lock-tracing macros
  \<^verbatim>\<open>KAA_MUTEX_...\<close> are left out; a log call is recorded with its level and its format
  string.
\<close>

subsection \<open>Types of the interface\<close>

text \<open>
  The enumerations \<^verbatim>\<open>TransportType\<close> and \<^verbatim>\<open>ChannelType\<close> are declared in headers;
  the members the channel names are constructors here, all the other members are
  \<open>OtherTransportType n\<close> and \<open>OtherChannelType n\<close>.
\<close>

datatype TransportType =
  PROFILE | CONFIGURATION | NOTIFICATION | USER | EVENT | OtherTransportType nat

datatype ChannelDirection = UP | DOWN | BIDIRECTIONAL

datatype ChannelType = HTTP_LP | OtherChannelType nat

type_synonym bytes = "nat list"

text \<open>A server descriptor (\<^verbatim>\<open>IServerInfo\<close>, \<^verbatim>\<open>OperationServerLongPollInfo\<close>): the
  getters the channel calls. A descriptor whose type tag is \<open>HTTP_LP\<close> is taken to be an
  \<^verbatim>\<open>OperationServerLongPollInfo\<close>, as \<^verbatim>\<open>setServer\<close> takes it, so its downcast succeeds.\<close>

record ServerInfo =
  getType :: ChannelType
  getHost :: string
  getPort :: nat
  getUrl :: string
  getPublicKey :: bytes

type_synonym KeyPair = "bytes \<times> bytes"

datatype EncoderDecoder = RsaEncoderDecoder bytes bytes bytes

datatype level = INFO | WARN | ERROR

text \<open>Calls that leave the channel. Collaborator pointers are numbers; \<open>None\<close> is
  \<^verbatim>\<open>nullptr\<close>.\<close>

datatype event =
    Log level string
  | CreateThread
  | Post
  | CloseConnection
  | CompileRequest nat
  | CreateOperationRequest string bytes
  | SendRequest string bytes
  | RetrieveOperationResponse bytes
  | ProcessResponse nat bytes
  | NotifyAll
  | OnServerFailed ServerInfo

text \<open>What a collaborator does when called: it returns, or it throws a
  \<^verbatim>\<open>std::exception\<close>.\<close>

datatype 'a outcome = Returns 'a | Throws

record env =
  compileRequest :: "bytes outcome"
  createOperationRequest :: "unit outcome"
  sendRequest :: "bytes outcome"
  retrieveOperationResponse :: "bytes outcome"
  processResponse :: "unit outcome"

text \<open>
  The worker thread \<^verbatim>\<open>pollThread_\<close> runs \<^verbatim>\<open>io_.run()\<close>: it is not yet created, or waits
  for a posted handler, or is inside \<^verbatim>\<open>executeTask\<close> at one of the points where other
  threads can run: blocked in \<^verbatim>\<open>sendRequest\<close> (line 107), inside \<^verbatim>\<open>processResponse\<close>
  (line 117), before \<^verbatim>\<open>lock.lock()\<close> (line 147), or entering the handler of line 121.
  Dereferencing a null pointer and an exception that nothing catches both end the process
  where it stands: \<^verbatim>\<open>std::terminate\<close> is reached with the locks of the thread still held.
\<close>

datatype abort = NullDereference | UncaughtException

datatype thread_state =
    NotCreated
  | Idle
  | Sending ServerInfo
  | Processing ServerInfo
  | Rearming
  | Catching ServerInfo
  | Aborted abort

record channel =
  clientKeys :: KeyPair
  stopped :: bool
  connectionInProgress :: bool
  taskPosted :: bool
  firstStart :: bool
  multiplexer :: "nat option"
  demultiplexer :: "nat option"
  currentServer :: "ServerInfo option"
  encoderDecoder :: "EncoderDecoder option"
  io :: nat
  pollThread :: thread_state
  channelGuard :: bool
  trace :: "(bool \<times> event) list"

subsection \<open>Constants and constructor (lines 27-40)\<close>

definition CHANNEL_ID :: string where
  "CHANNEL_ID = ''default_operations_long_poll_channel''"

definition SUPPORTED_TYPES :: "(TransportType \<times> ChannelDirection) list" where
  "SUPPORTED_TYPES =
     [(PROFILE, BIDIRECTIONAL),
      (CONFIGURATION, BIDIRECTIONAL),
      (NOTIFICATION, BIDIRECTIONAL),
      (USER, BIDIRECTIONAL),
      (EVENT, DOWN)]"

definition DefaultOperationLongPollChannel :: "KeyPair \<Rightarrow> channel" where
  "DefaultOperationLongPollChannel keys =
     \<lparr>clientKeys = keys, stopped = True, connectionInProgress = False, taskPosted = False,
      firstStart = True, multiplexer = None, demultiplexer = None, currentServer = None,
      encoderDecoder = None, io = 0, pollThread = NotCreated, channelGuard = False,
      trace = []\<rparr>"

subsection \<open>Mutex, trace and log\<close>

definition lock_guard :: "channel \<Rightarrow> channel" where
  "lock_guard s = s\<lparr>channelGuard := True\<rparr>"

definition unlock_guard :: "channel \<Rightarrow> channel" where
  "unlock_guard s = s\<lparr>channelGuard := False\<rparr>"

definition emit :: "event \<Rightarrow> channel \<Rightarrow> channel" where
  "emit e s = s\<lparr>trace := trace s @ [(channelGuard s, e)]\<rparr>"

definition KAA_LOG :: "level \<Rightarrow> string \<Rightarrow> channel \<Rightarrow> channel" where
  "KAA_LOG l msg s = emit (Log l msg) s"

subsection \<open>The operations of calling threads\<close>

text \<open>What a calling thread still has to do: the operation it called, or the rest of one.
  \<open>StopPollWait\<close> is a thread inside \<^verbatim>\<open>waitCondition_.wait\<close> (line 74);
  \<open>SetServerBind\<close> is the critical section of \<^verbatim>\<open>setServer\<close> (lines 213-221).\<close>

datatype frame =
    StartPoll
  | StopPoll
  | StopPollWait
  | Sync TransportType
  | SyncAll
  | SetMultiplexer "nat option"
  | SetDemultiplexer "nat option"
  | SetServer ServerInfo
  | SetServerBind ServerInfo

text \<open>\<^verbatim>\<open>postTask\<close>, lines 79-83.\<close>

definition postTask :: "channel \<Rightarrow> channel" where
  "postTask s = (emit Post s)\<lparr>io := io s + 1, taskPosted := True\<rparr>"

text \<open>\<^verbatim>\<open>startPoll\<close>, lines 42-61: one critical section.\<close>

definition startPoll :: "channel \<Rightarrow> channel" where
  "startPoll s0 =
     (let s1 = lock_guard (KAA_LOG INFO ''Starting poll scheduler..'' s0);
          s2 = (if firstStart s1
                then (emit CreateThread
                        (KAA_LOG INFO ''First start for channel %1%. Creating a thread...'' s1))
                       \<lparr>pollThread := Idle, firstStart := False\<rparr>
                else s1);
          s3 = (if stopped s2
                then KAA_LOG INFO ''Poll scheduler started'' (postTask (s2\<lparr>stopped := False\<rparr>))
                else KAA_LOG INFO ''Poll scheduler is already started'' s2)
      in unlock_guard s3)"

text \<open>\<^verbatim>\<open>stopPoll\<close>, lines 63-77, up to the wait, which releases the mutex. The result
  says whether the caller has returned (\<open>[]\<close>) or is waiting.\<close>

definition stopPoll :: "channel \<Rightarrow> channel \<times> frame list" where
  "stopPoll s0 =
     (let s1 = lock_guard (KAA_LOG INFO ''Stopping poll future..'' s0) in
      if \<not> stopped s1
      then (let s2 = s1\<lparr>stopped := True\<rparr> in
            if connectionInProgress s2
            then (unlock_guard (emit CloseConnection s2), [StopPollWait])
            else (unlock_guard s2, []))
      else (unlock_guard s1, []))"

text \<open>A waiting thread that wakes up (notified or not) holds the mutex, evaluates
  \<^verbatim>\<open>!connectionInProgress_\<close> and returns from \<^verbatim>\<open>stopPoll\<close> or waits again.\<close>

definition stopPoll_wait :: "channel \<Rightarrow> channel \<times> frame list" where
  "stopPoll_wait s0 =
     (let s1 = lock_guard s0 in
      if \<not> connectionInProgress s1 then (unlock_guard s1, [])
      else (unlock_guard s1, [StopPollWait]))"

text \<open>\<^verbatim>\<open>sync\<close>, lines 154-174, up to the call of \<^verbatim>\<open>stopPoll\<close>.\<close>

definition sync :: "TransportType \<Rightarrow> channel \<Rightarrow> channel \<times> frame list" where
  "sync t s0 =
     (if (case map_of SUPPORTED_TYPES t of
            None \<Rightarrow> False
          | Some d \<Rightarrow> d = UP \<or> d = BIDIRECTIONAL)
      then (let s1 = lock_guard s0 in
            if currentServer s1 \<noteq> None
            then (unlock_guard s1, [StopPoll, StartPoll])
            else (unlock_guard (KAA_LOG WARN ''Can't sync channel %1%. Server is null'' s1), []))
      else (KAA_LOG ERROR ''Unsupported transport type for channel %1%'' s0, []))"

text \<open>\<^verbatim>\<open>syncAll\<close>, lines 176-191, up to the call of \<^verbatim>\<open>stopPoll\<close>.\<close>

definition syncAll :: "channel \<Rightarrow> channel \<times> frame list" where
  "syncAll s0 =
     (let s1 = lock_guard s0 in
      if currentServer s1 \<noteq> None
      then (unlock_guard s1, [StopPoll, StartPoll])
      else (unlock_guard (KAA_LOG WARN ''Can't sync channel %1%. Server is null'' s1), []))"

text \<open>\<^verbatim>\<open>setMultiplexer\<close> and \<^verbatim>\<open>setDemultiplexer\<close>, lines 193-207.\<close>

definition setMultiplexer :: "nat option \<Rightarrow> channel \<Rightarrow> channel" where
  "setMultiplexer m s = unlock_guard ((lock_guard s)\<lparr>multiplexer := m\<rparr>)"

definition setDemultiplexer :: "nat option \<Rightarrow> channel \<Rightarrow> channel" where
  "setDemultiplexer d s = unlock_guard ((lock_guard s)\<lparr>demultiplexer := d\<rparr>)"

text \<open>\<^verbatim>\<open>setServer\<close>, lines 209-226: the test of the type tag, then \<^verbatim>\<open>stopPoll\<close>, the
  critical section of lines 213-221, and \<^verbatim>\<open>startPoll\<close>.\<close>

definition setServer :: "ServerInfo \<Rightarrow> channel \<Rightarrow> channel \<times> frame list" where
  "setServer server s0 =
     (if getType server = HTTP_LP
      then (s0, [StopPoll, SetServerBind server, StartPoll])
      else (KAA_LOG ERROR ''Invalid server info for channel %1%'' s0, []))"

definition setServer_bind :: "ServerInfo \<Rightarrow> channel \<Rightarrow> channel" where
  "setServer_bind server s0 =
     (let s1 = (lock_guard s0)\<lparr>currentServer := Some server\<rparr>;
          encDec = RsaEncoderDecoder (fst (clientKeys s1)) (snd (clientKeys s1))
                     (getPublicKey server)
      in unlock_guard (s1\<lparr>encoderDecoder := Some encDec\<rparr>))"

fun exec_frame :: "frame \<Rightarrow> channel \<Rightarrow> channel \<times> frame list" where
  "exec_frame StartPoll s = (startPoll s, [])"
| "exec_frame StopPoll s = stopPoll s"
| "exec_frame StopPollWait s = stopPoll_wait s"
| "exec_frame (Sync t) s = sync t s"
| "exec_frame SyncAll s = syncAll s"
| "exec_frame (SetMultiplexer m) s = (setMultiplexer m s, [])"
| "exec_frame (SetDemultiplexer d) s = (setDemultiplexer d s, [])"
| "exec_frame (SetServer server) s = setServer server s"
| "exec_frame (SetServerBind server) s = (setServer_bind server s, [])"

subsection \<open>The poll cycle: \<^verbatim>\<open>executeTask\<close>, lines 85-152\<close>

text \<open>Lines 87-107: from the start of the handler until the thread is blocked in
  \<^verbatim>\<open>sendRequest\<close>. Lines 98 and 100 are before the \<^verbatim>\<open>try\<close> of line 105: an exception
  thrown there is caught nowhere, and the lock of line 88 is still held when the process
  ends.\<close>

definition executeTask_begin :: "env \<Rightarrow> channel \<Rightarrow> channel" where
  "executeTask_begin e s0 =
     (let s1 = (lock_guard s0)\<lparr>taskPosted := False\<rparr> in
      if stopped s1 then (unlock_guard s1)\<lparr>pollThread := Idle\<rparr>
      else
        (let s2 = s1\<lparr>connectionInProgress := True\<rparr>;
             server = currentServer s2 in
         case multiplexer s2 of
           None \<Rightarrow> s2\<lparr>pollThread := Aborted NullDereference\<rparr>
         | Some m \<Rightarrow>
            (let s3 = emit (CompileRequest m) s2 in
             case compileRequest e of
               Throws \<Rightarrow> s3\<lparr>pollThread := Aborted UncaughtException\<rparr>
             | Returns bodyRaw \<Rightarrow>
                (case server of
                   None \<Rightarrow> s3\<lparr>pollThread := Aborted NullDereference\<rparr>
                 | Some srv \<Rightarrow>
                    (let s4 = emit (CreateOperationRequest (getUrl srv) bodyRaw) s3 in
                     case createOperationRequest e of
                       Throws \<Rightarrow> s4\<lparr>pollThread := Aborted UncaughtException\<rparr>
                     | Returns _ \<Rightarrow>
                        (emit (SendRequest (getUrl srv) bodyRaw) (unlock_guard s4))
                          \<lparr>pollThread := Sending srv\<rparr>)))))"

text \<open>Lines 107-119: \<^verbatim>\<open>sendRequest\<close> returns or throws; on return, the critical section
  of lines 109-115 and the call of \<^verbatim>\<open>processResponse\<close>.\<close>

definition executeTask_response :: "env \<Rightarrow> ServerInfo \<Rightarrow> channel \<Rightarrow> channel" where
  "executeTask_response e server s0 =
     (case sendRequest e of
        Throws \<Rightarrow> s0\<lparr>pollThread := Catching server\<rparr>
      | Returns response \<Rightarrow>
         (let s1 = (lock_guard s0)\<lparr>connectionInProgress := False\<rparr>;
              s2 = emit (RetrieveOperationResponse response) s1 in
          case retrieveOperationResponse e of
            Throws \<Rightarrow> (unlock_guard s2)\<lparr>pollThread := Catching server\<rparr>
          | Returns processedResponse \<Rightarrow>
             (let s3 = unlock_guard s2 in
              case demultiplexer s3 of
                None \<Rightarrow> s3\<lparr>pollThread := Aborted NullDereference\<rparr>
              | Some d \<Rightarrow>
                 (emit (ProcessResponse d processedResponse) s3)
                   \<lparr>pollThread := Processing server\<rparr>)))"

text \<open>Lines 117-120: \<^verbatim>\<open>processResponse\<close> returns or throws; on return,
  \<^verbatim>\<open>notify_all\<close>.\<close>

definition executeTask_processed :: "env \<Rightarrow> ServerInfo \<Rightarrow> channel \<Rightarrow> channel" where
  "executeTask_processed e server s0 =
     (case processResponse e of
        Throws \<Rightarrow> s0\<lparr>pollThread := Catching server\<rparr>
      | Returns _ \<Rightarrow> (emit NotifyAll s0)\<lparr>pollThread := Rearming\<rparr>)"

text \<open>Lines 146-152.\<close>

definition executeTask_rearm :: "channel \<Rightarrow> channel" where
  "executeTask_rearm s0 =
     (let s1 = lock_guard s0;
          s2 = (if \<not> stopped s1 \<and> \<not> taskPosted s1 then postTask s1 else s1)
      in (unlock_guard s2)\<lparr>pollThread := Idle\<rparr>)"

text \<open>Lines 121-144, the handler of \<^verbatim>\<open>std::exception\<close>.\<close>

definition executeTask_catch :: "ServerInfo \<Rightarrow> channel \<Rightarrow> channel" where
  "executeTask_catch server s0 =
     (let s1 = (lock_guard s0)\<lparr>connectionInProgress := False\<rparr>;
          isServerFailed = \<not> stopped s1;
          s2 = (if stopped s1
                then KAA_LOG INFO ''Connection for channel %1% was aborted'' s1
                else (KAA_LOG ERROR ''Connection failed, server %1%:%2%: %3%'' s1)
                       \<lparr>stopped := True\<rparr>);
          s3 = emit NotifyAll (unlock_guard s2);
          s4 = (if isServerFailed then emit (OnServerFailed server) s3 else s3)
      in s4\<lparr>pollThread := Idle\<rparr>)"

text \<open>\<^verbatim>\<open>io_.run()\<close> on the worker thread: the next piece of the handler in execution,
  or the next posted handler. \<open>None\<close>: the thread cannot move.\<close>

definition io_run :: "env \<Rightarrow> channel \<Rightarrow> channel option" where
  "io_run e s =
     (case pollThread s of
        NotCreated \<Rightarrow> None
      | Idle \<Rightarrow> if 0 < io s then Some (executeTask_begin e (s\<lparr>io := io s - 1\<rparr>)) else None
      | Sending server \<Rightarrow> Some (executeTask_response e server s)
      | Processing server \<Rightarrow> Some (executeTask_processed e server s)
      | Rearming \<Rightarrow> Some (executeTask_rearm s)
      | Catching server \<Rightarrow> Some (executeTask_catch server s)
      | Aborted r \<Rightarrow> None)"

subsection \<open>Threads\<close>

text \<open>The channel with its calling threads. \<open>Call f\<close>: a new thread calls the public
  operation \<open>f\<close>. \<open>Run i\<close>: thread \<open>i\<close> executes its next piece. \<open>Work e\<close>: the worker
  thread executes its next piece, the collaborators behaving as \<open>e\<close> says. Nothing runs
  after the process has ended.\<close>

record config =
  chan :: channel
  callers :: "frame list list"

datatype action = Call frame | Run nat | Work env

fun is_public :: "frame \<Rightarrow> bool" where
  "is_public StopPollWait = False"
| "is_public (SetServerBind server) = False"
| "is_public f = True"

fun aborted :: "thread_state \<Rightarrow> bool" where
  "aborted (Aborted r) = True"
| "aborted t = False"

definition step :: "action \<Rightarrow> config \<Rightarrow> config option" where
  "step a c =
     (if aborted (pollThread (chan c)) then None
      else case a of
        Call f \<Rightarrow> if is_public f then Some (c\<lparr>callers := callers c @ [[f]]\<rparr>) else None
      | Run i \<Rightarrow>
         (if i < length (callers c)
          then (case callers c ! i of
                  [] \<Rightarrow> None
                | f # fs \<Rightarrow>
                   (case exec_frame f (chan c) of
                      (s', fs') \<Rightarrow> Some \<lparr>chan = s', callers = (callers c)[i := fs' @ fs]\<rparr>))
          else None)
      | Work e \<Rightarrow>
         (case io_run e (chan c) of
            None \<Rightarrow> None
          | Some s' \<Rightarrow> Some (c\<lparr>chan := s'\<rparr>)))"

fun run :: "action list \<Rightarrow> config \<Rightarrow> config option" where
  "run [] c = Some c"
| "run (a # as) c = (case step a c of None \<Rightarrow> None | Some c' \<Rightarrow> run as c')"

definition initial :: "KeyPair \<Rightarrow> config" where
  "initial keys = \<lparr>chan = DefaultOperationLongPollChannel keys, callers = []\<rparr>"

inductive reachable :: "KeyPair \<Rightarrow> config \<Rightarrow> bool" for keys :: KeyPair where
  reachable_initial: "reachable keys (initial keys)"
| reachable_step: "reachable keys c \<Longrightarrow> step a c = Some c' \<Longrightarrow> reachable keys c'"

code_pred reachable .

subsection \<open>Notions used in the statements\<close>

text \<open>The action executes \<^verbatim>\<open>startPoll\<close>: it schedules a thread whose next piece is
  \<open>StartPoll\<close>.\<close>

definition runs_startPoll :: "action \<Rightarrow> config \<Rightarrow> bool" where
  "runs_startPoll a c =
     (case a of
        Run j \<Rightarrow> j < length (callers c) \<and>
                 (case callers c ! j of StartPoll # fs \<Rightarrow> True | _ \<Rightarrow> False)
      | _ \<Rightarrow> False)"

fun no_startPoll :: "action list \<Rightarrow> config \<Rightarrow> bool" where
  "no_startPoll [] c = True"
| "no_startPoll (a # as) c =
     (\<not> runs_startPoll a c \<and> (case step a c of None \<Rightarrow> True | Some c' \<Rightarrow> no_startPoll as c'))"

text \<open>A thread is inside the wait of \<^verbatim>\<open>stopPoll\<close>; some thread of the configuration
  is.\<close>

fun in_wait :: "frame list \<Rightarrow> bool" where
  "in_wait (StopPollWait # fs) = True"
| "in_wait fs = False"

definition waiting_in_stopPoll :: "config \<Rightarrow> bool" where
  "waiting_in_stopPoll c = list_ex in_wait (callers c)"

text \<open>How many times \<^verbatim>\<open>pollThread_\<close> was given a new thread.\<close>

definition threads_created :: "channel \<Rightarrow> nat" where
  "threads_created s = length (filter (\<lambda>x. snd x = CreateThread) (trace s))"

text \<open>What ties the worker thread to \<^verbatim>\<open>firstStart_\<close>, and the mutex being free between
  the pieces of a running process.\<close>

definition worker_inv :: "channel \<Rightarrow> bool" where
  "worker_inv s \<longleftrightarrow>
     (if firstStart s
      then stopped s \<and> pollThread s = NotCreated \<and> threads_created s = 0
      else pollThread s \<noteq> NotCreated \<and> threads_created s = 1)
     \<and> (aborted (pollThread s) \<or> \<not> channelGuard s)"

text \<open>A trace entry respects the channel's use of the mutex: \<^verbatim>\<open>sendRequest\<close> and
  \<^verbatim>\<open>processResponse\<close> are called with the mutex free, \<^verbatim>\<open>compileRequest\<close> with the
  mutex held.\<close>

fun lock_discipline :: "bool \<times> event \<Rightarrow> bool" where
  "lock_discipline (g, SendRequest u b) = (\<not> g)"
| "lock_discipline (g, ProcessResponse d b) = (\<not> g)"
| "lock_discipline (g, CompileRequest m) = g"
| "lock_discipline (g, e) = True"

text \<open>A trace entry is a call of the transport's send, of the multiplexer or of the
  demultiplexer made with the mutex held.\<close>

fun held_across_collaborator :: "bool \<times> event \<Rightarrow> bool" where
  "held_across_collaborator (g, SendRequest u b) = g"
| "held_across_collaborator (g, ProcessResponse d b) = g"
| "held_across_collaborator (g, CompileRequest m) = g"
| "held_across_collaborator (g, e) = False"

text \<open>The entries that signal waiters or escalate a failure, and what is left of a failed
  cycle: the worker's state, the in-flight flag, and those entries.\<close>

fun signalled :: "bool \<times> event \<Rightarrow> bool" where
  "signalled (g, NotifyAll) = True"
| "signalled (g, OnServerFailed server) = True"
| "signalled (g, e) = False"

definition failure_handling :: "config \<Rightarrow> thread_state \<times> bool \<times> (bool \<times> event) list" where
  "failure_handling c =
     (pollThread (chan c), connectionInProgress (chan c), filter signalled (trace (chan c)))"

definition stopped_and_inFlight :: "config \<Rightarrow> bool \<times> bool" where
  "stopped_and_inFlight c = (stopped (chan c), connectionInProgress (chan c))"

fun sent :: "bool \<times> event \<Rightarrow> bool" where
  "sent (g, SendRequest u b) = True"
| "sent (g, e) = False"







subsection \<open>Concrete inputs\<close>

definition srv0 :: ServerInfo where
  "srv0 = \<lparr>getType = HTTP_LP, getHost = ''localhost'', getPort = 9999,
            getUrl = ''/EP/LongSync'', getPublicKey = [1, 2, 3]\<rparr>"

definition srv_other :: ServerInfo where
  "srv_other = srv0\<lparr>getType := OtherChannelType 0\<rparr>"

definition srv1 :: ServerInfo where
  "srv1 = \<lparr>getType = HTTP_LP, getHost = ''standby'', getPort = 9998,
            getUrl = ''/EP/LongSync2'', getPublicKey = [8, 9]\<rparr>"

definition keys0 :: KeyPair where
  "keys0 = ([4, 5], [6, 7])"

definition env_ok :: env where
  "env_ok = \<lparr>compileRequest = Returns [10], createOperationRequest = Returns (),
             sendRequest = Returns [20], retrieveOperationResponse = Returns [30],
             processResponse = Returns ()\<rparr>"

definition env_send_throws :: env where
  "env_send_throws = env_ok\<lparr>sendRequest := Throws\<rparr>"

definition env_compile_throws :: env where
  "env_compile_throws = env_ok\<lparr>compileRequest := Throws\<rparr>"

definition env_process_throws :: env where
  "env_process_throws = env_ok\<lparr>processResponse := Throws\<rparr>"

text \<open>A started channel whose worker is blocked in \<^verbatim>\<open>sendRequest\<close>, and one whose
  worker is idle with a handler posted.\<close>

definition in_flight :: channel where
  "in_flight = (DefaultOperationLongPollChannel keys0)
     \<lparr>stopped := False, connectionInProgress := True, firstStart := False,
      multiplexer := Some 1, demultiplexer := Some 2, currentServer := Some srv0,
      pollThread := Sending srv0\<rparr>"

definition armed :: channel where
  "armed = (DefaultOperationLongPollChannel keys0)
     \<lparr>stopped := False, taskPosted := True, firstStart := False,
      multiplexer := Some 1, demultiplexer := Some 2, currentServer := Some srv0,
      io := 1, pollThread := Idle\<rparr>"

text \<open>Three threads configure a new channel: multiplexer, demultiplexer, server (which
  starts polling). The same without a demultiplexer. Five threads start and stop a new
  channel in turn.\<close>

definition setup_actions :: "action list" where
  "setup_actions =
     [Call (SetMultiplexer (Some 1)), Run 0, Call (SetDemultiplexer (Some 2)), Run 1,
      Call (SetServer srv0), Run 2, Run 2, Run 2, Run 2]"

definition no_demultiplexer_actions :: "action list" where
  "no_demultiplexer_actions =
     [Call (SetMultiplexer (Some 1)), Run 0, Call (SetServer srv0), Run 1, Run 1, Run 1, Run 1]"

text \<open>The demultiplexer is set while the first request is in flight. A second thread
  calls \<^verbatim>\<open>sync\<close> before the worker has run, then the worker runs three pieces of the
  first cycle.\<close>

definition late_demultiplexer_actions :: "action list" where
  "late_demultiplexer_actions =
     no_demultiplexer_actions @ [Work env_ok, Call (SetDemultiplexer (Some 2)), Run 2]"


definition start_stop_actions :: "action list" where
  "start_stop_actions =
     [Call StartPoll, Run 0, Call StopPoll, Run 1, Call StartPoll, Run 2,
      Call StopPoll, Run 3, Call StartPoll, Run 4]"

section \<open>Properties\<close>

subsection \<open>Evaluation and case analysis\<close>

lemmas prim_defs = lock_guard_def unlock_guard_def emit_def KAA_LOG_def postTask_def

lemmas worker_defs = io_run_def executeTask_begin_def executeTask_response_def
  executeTask_processed_def executeTask_rearm_def executeTask_catch_def prim_defs Let_def

lemmas model_defs =
  step_def startPoll_def stopPoll_def stopPoll_wait_def sync_def syncAll_def
  setMultiplexer_def setDemultiplexer_def setServer_def setServer_bind_def
  worker_defs runs_startPoll_def

lemmas example_defs =
  srv0_def srv_other_def keys0_def env_ok_def env_send_throws_def env_compile_throws_def
  in_flight_def armed_def DefaultOperationLongPollChannel_def initial_def

lemmas run_defs = model_defs example_defs setup_actions_def no_demultiplexer_actions_def
  start_stop_actions_def failure_handling_def stopped_and_inFlight_def

lemma stepE:
  assumes "step a c = Some c'"
  obtains (Call) f where "a = Call f" "is_public f" "c' = c\<lparr>callers := callers c @ [[f]]\<rparr>"
  | (Run) i f fs s' fs' where "a = Run i" "i < length (callers c)" "callers c ! i = f # fs"
      "exec_frame f (chan c) = (s', fs')"
      "c' = \<lparr>chan = s', callers = (callers c)[i := fs' @ fs]\<rparr>"
  | (Work) e s' where "a = Work e" "io_run e (chan c) = Some s'" "c' = c\<lparr>chan := s'\<rparr>"
  using assms
  by (auto simp: step_def split: if_splits action.splits list.splits option.splits prod.splits)

lemma step_alive: "step a c = Some c' \<Longrightarrow> \<not> aborted (pollThread (chan c))"
  by (auto simp: step_def split: if_splits)

lemma run_append:
  "run (as @ bs) c = (case run as c of None \<Rightarrow> None | Some c' \<Rightarrow> run bs c')"
  by (induction as arbitrary: c) (auto split: option.splits)

lemma run_reachable: "run as c = Some c' \<Longrightarrow> reachable keys c \<Longrightarrow> reachable keys c'"
  by (induction as arbitrary: c) (auto split: option.splits intro: reachable_step)

lemma set_update_other:
  "x \<in> set xs \<Longrightarrow> x \<noteq> xs ! j \<Longrightarrow> x \<in> set (xs[j := y])"
  by (metis in_set_conv_nth length_list_update nth_list_update_neq)

subsection \<open>The operations of calling threads\<close>

text \<open>No calling thread writes \<^verbatim>\<open>connectionInProgress_\<close>; the only piece of a
  calling thread that stops a channel with a request in flight is \<^verbatim>\<open>stopPoll\<close>, which
  then waits.\<close>

lemma exec_frame_inFlight:
  "exec_frame f s = (s', fs') \<Longrightarrow> connectionInProgress s' = connectionInProgress s"
  by (cases f)
     (auto simp: startPoll_def stopPoll_def stopPoll_wait_def sync_def syncAll_def
        setMultiplexer_def setDemultiplexer_def setServer_def setServer_bind_def prim_defs Let_def
        split: if_splits)

lemma exec_frame_stopped_before:
  "exec_frame f s = (s', fs') \<Longrightarrow> stopped s' \<Longrightarrow> \<not> stopped s \<Longrightarrow>
   connectionInProgress s \<Longrightarrow> f = StopPoll \<and> fs' = [StopPollWait]"
  by (cases f)
     (auto simp: startPoll_def stopPoll_def stopPoll_wait_def sync_def syncAll_def
        setMultiplexer_def setDemultiplexer_def setServer_def setServer_bind_def prim_defs Let_def
        split: if_splits)

lemma exec_frame_in_wait:
  "exec_frame f s = (s', fs') \<Longrightarrow> in_wait (f # fs) \<Longrightarrow> connectionInProgress s \<Longrightarrow>
   in_wait (fs' @ fs)"
  by (cases f) (auto simp: stopPoll_wait_def prim_defs Let_def)

lemma stopPoll_stopped:
  "stopped s \<Longrightarrow> \<not> channelGuard s \<Longrightarrow>
   stopPoll s = (s\<lparr>trace := trace s @ [(False, Log INFO ''Stopping poll future..'')]\<rparr>, [])"
  by (simp add: stopPoll_def prim_defs Let_def)

lemma startPoll_started:
  "\<not> stopped s \<Longrightarrow> \<not> firstStart s \<Longrightarrow> \<not> channelGuard s \<Longrightarrow>
   startPoll s =
     s\<lparr>trace := trace s @ [(False, Log INFO ''Starting poll scheduler..''),
                            (True, Log INFO ''Poll scheduler is already started'')]\<rparr>"
  by (simp add: startPoll_def prim_defs Let_def)

lemma startPoll_first:
  "firstStart s \<Longrightarrow> threads_created s = 0 \<Longrightarrow>
   threads_created (startPoll s) = 1 \<and> \<not> firstStart (startPoll s)"
  by (simp add: startPoll_def prim_defs Let_def threads_created_def)

subsection \<open>The pieces of the poll cycle\<close>

lemma begin_stopped:
  "pollThread s = Idle \<Longrightarrow> 0 < io s \<Longrightarrow> stopped s \<Longrightarrow> \<not> channelGuard s \<Longrightarrow>
   io_run e s = Some (s\<lparr>io := io s - 1, taskPosted := False\<rparr>)"
  by (simp add: worker_defs)

lemma inFlight_set:
  "io_run e s = Some s' \<Longrightarrow> \<not> connectionInProgress s \<Longrightarrow> connectionInProgress s' \<Longrightarrow>
   \<not> stopped s \<and> \<not> stopped s' \<and> pollThread s = Idle"
  by (auto simp: worker_defs split: thread_state.splits if_splits option.splits outcome.splits)

lemma io_run_stopped_inFlight_before:
  "io_run e s = Some s' \<Longrightarrow> connectionInProgress s' \<Longrightarrow> stopped s' \<Longrightarrow>
   connectionInProgress s \<and> stopped s"
  by (auto simp: worker_defs split: thread_state.splits if_splits option.splits outcome.splits)

subsection \<open>Invariants\<close>

lemma worker_inv_init: "worker_inv (DefaultOperationLongPollChannel keys)"
  by (simp add: worker_inv_def DefaultOperationLongPollChannel_def threads_created_def)

lemma worker_inv_exec_frame:
  "exec_frame f s = (s', fs') \<Longrightarrow> \<not> aborted (pollThread s) \<Longrightarrow> worker_inv s \<Longrightarrow> worker_inv s'"
  by (cases f)
     (auto simp: worker_inv_def threads_created_def startPoll_def stopPoll_def stopPoll_wait_def
        sync_def syncAll_def setMultiplexer_def setDemultiplexer_def setServer_def
        setServer_bind_def prim_defs Let_def
        split: if_splits)

lemma worker_inv_io_run:
  "io_run e s = Some s' \<Longrightarrow> worker_inv s \<Longrightarrow> worker_inv s'"
  by (auto simp: worker_inv_def threads_created_def io_run_def executeTask_begin_def
        executeTask_response_def executeTask_processed_def executeTask_rearm_def
        executeTask_catch_def prim_defs Let_def
        split: thread_state.splits if_splits outcome.splits option.splits)

lemma worker_inv_step:
  assumes "step a c = Some c'" "worker_inv (chan c)"
  shows "worker_inv (chan c')"
  using assms(1)
proof (cases rule: stepE)
  case (Call f)
  with assms(2) show ?thesis by simp
next
  case (Run i f fs s' fs')
  with assms show ?thesis by (auto dest: step_alive worker_inv_exec_frame)
next
  case (Work e s')
  with assms(2) show ?thesis by (auto dest: worker_inv_io_run)
qed

lemma reachable_worker_inv: "reachable keys c \<Longrightarrow> worker_inv (chan c)"
  by (induction rule: reachable.induct)
     (auto simp: initial_def worker_inv_init dest: worker_inv_step)

lemma discipline_exec_frame:
  "exec_frame f s = (s', fs') \<Longrightarrow> list_all lock_discipline (trace s) \<Longrightarrow>
   list_all lock_discipline (trace s')"
  by (cases f)
     (auto simp: startPoll_def stopPoll_def stopPoll_wait_def
        sync_def syncAll_def setMultiplexer_def setDemultiplexer_def setServer_def
        setServer_bind_def prim_defs Let_def
        split: if_splits)

lemma discipline_io_run:
  "io_run e s = Some s' \<Longrightarrow> list_all lock_discipline (trace s) \<Longrightarrow>
   list_all lock_discipline (trace s')"
  by (auto simp: io_run_def executeTask_begin_def
        executeTask_response_def executeTask_processed_def executeTask_rearm_def
        executeTask_catch_def prim_defs Let_def
        split: thread_state.splits if_splits outcome.splits option.splits)

lemma discipline_step:
  assumes "step a c = Some c'" "list_all lock_discipline (trace (chan c))"
  shows "list_all lock_discipline (trace (chan c'))"
  using assms(1)
proof (cases rule: stepE)
  case (Call f)
  with assms(2) show ?thesis by simp
next
  case (Run i f fs s' fs')
  with assms show ?thesis by (auto dest: discipline_exec_frame)
next
  case (Work e s')
  with assms(2) show ?thesis by (auto dest: discipline_io_run)
qed

text \<open>Whenever the channel is stopped with a request in flight, some thread is waiting in
  \<^verbatim>\<open>stopPoll\<close>.\<close>

lemma waiting_inv_step:
  assumes st: "step a c = Some c'"
    and inv: "connectionInProgress (chan c) \<and> stopped (chan c) \<longrightarrow> waiting_in_stopPoll c"
  shows "connectionInProgress (chan c') \<and> stopped (chan c') \<longrightarrow> waiting_in_stopPoll c'"
  using st
proof (cases rule: stepE)
  case (Call f)
  with inv show ?thesis by (auto simp: waiting_in_stopPoll_def list_ex_iff)
next
  case (Work e s')
  with inv show ?thesis
    by (auto simp: waiting_in_stopPoll_def dest: io_run_stopped_inFlight_before)
next
  case (Run j f gs s' fs')
  show ?thesis
  proof (intro impI)
    assume h: "connectionInProgress (chan c') \<and> stopped (chan c')"
    with Run have cip: "connectionInProgress (chan c)" "stopped s'"
      by (auto dest: exec_frame_inFlight)
    show "waiting_in_stopPoll c'"
    proof (cases "stopped (chan c)")
      case False
      with Run cip have "fs' = [StopPollWait]" by (auto dest: exec_frame_stopped_before)
      with Run have "in_wait (callers c' ! j)" "j < length (callers c')" by auto
      then show ?thesis
        unfolding waiting_in_stopPoll_def list_ex_iff by (metis nth_mem)
    next
      case True
      with inv cip obtain ws where ws: "ws \<in> set (callers c)" "in_wait ws"
        by (auto simp: waiting_in_stopPoll_def list_ex_iff)
      show ?thesis
      proof (cases "ws = callers c ! j")
        case True
        with ws Run cip have "in_wait (fs' @ gs)" by (auto dest: exec_frame_in_wait)
        with Run have "in_wait (callers c' ! j)" "j < length (callers c')" by auto
        then show ?thesis
          unfolding waiting_in_stopPoll_def list_ex_iff by (metis nth_mem)
      next
        case False
        with ws have "ws \<in> set ((callers c)[j := fs' @ gs])" by (auto intro: set_update_other)
        with ws Run show ?thesis by (auto simp: waiting_in_stopPoll_def list_ex_iff)
      qed
    qed
  qed
qed

lemma reachable_waiting_inv:
  "reachable keys c \<Longrightarrow>
   connectionInProgress (chan c) \<and> stopped (chan c) \<longrightarrow> waiting_in_stopPoll c"
proof (induction rule: reachable.induct)
  case reachable_initial
  show ?case by (simp add: initial_def DefaultOperationLongPollChannel_def)
next
  case (reachable_step c a c')
  then show ?case by (blast dest: waiting_inv_step)
qed

subsection \<open>Stopping\<close>

text \<open>
  Claim C1. A thread calls \<^verbatim>\<open>stopPoll\<close> (its next piece is \<open>StopPoll\<close>). If the channel
  is running with a request in flight, the call sets \<^verbatim>\<open>stopped_\<close>, closes the transport
  connection and waits; at every later moment reached without a run of \<^verbatim>\<open>startPoll\<close>
  the thread is still waiting inside \<^verbatim>\<open>stopPoll\<close>, or the channel is stopped with no
  request in flight. Whatever the other threads do, \<^verbatim>\<open>startPoll\<close> included, a thread
  waiting inside \<^verbatim>\<open>stopPoll\<close> leaves the wait only by a step of its own, taken when no
  request is in flight, and none is in flight after that step. If the channel is already
  stopped, the call changes nothing but the log and returns at once.
\<close>

theorem stopPoll_blocks_until_quiescent:
  assumes i: "i < length (callers c)" and f: "callers c ! i = StopPoll # fs"
    and alive: "\<not> aborted (pollThread (chan c))" and free: "\<not> channelGuard (chan c)"
  shows
    "(\<not> stopped (chan c) \<and> connectionInProgress (chan c) \<longrightarrow>
        step (Run i) c =
          Some \<lparr>chan = (chan c)\<lparr>stopped := True,
                   trace := trace (chan c) @
                     [(False, Log INFO ''Stopping poll future..''), (True, CloseConnection)]\<rparr>,
                callers = (callers c)[i := StopPollWait # fs]\<rparr>
        \<and> (\<forall>c1 as c'. step (Run i) c = Some c1 \<and> run as c1 = Some c' \<and> no_startPoll as c1 \<longrightarrow>
              callers c' ! i = StopPollWait # fs
              \<or> (stopped (chan c') \<and> \<not> connectionInProgress (chan c'))))
     \<and> (\<forall>a c2 c3. step a c2 = Some c3 \<and> i < length (callers c2) \<and>
            callers c2 ! i = StopPollWait # fs \<and> callers c3 ! i \<noteq> StopPollWait # fs \<longrightarrow>
              a = Run i \<and> \<not> connectionInProgress (chan c2) \<and>
              \<not> connectionInProgress (chan c3) \<and> callers c3 ! i = fs)
     \<and> (stopped (chan c) \<longrightarrow>
          step (Run i) c =
            Some \<lparr>chan = (chan c)\<lparr>trace := trace (chan c) @
                     [(False, Log INFO ''Stopping poll future..'')]\<rparr>,
                  callers = (callers c)[i := fs]\<rparr>)"
proof -
  have 1: "step (Run i) c =
          Some \<lparr>chan = (chan c)\<lparr>stopped := True,
                   trace := trace (chan c) @
                     [(False, Log INFO ''Stopping poll future..''), (True, CloseConnection)]\<rparr>,
                callers = (callers c)[i := StopPollWait # fs]\<rparr>"
    if r: "\<not> stopped (chan c) \<and> connectionInProgress (chan c)"
    using r i f alive free by (simp add: step_def stopPoll_def prim_defs Let_def)
  have frame_flag: "connectionInProgress s' = connectionInProgress s"
    if "exec_frame g s = (s', gs)" for g s s' gs
    using that
    by (cases g)
       (auto simp: startPoll_def stopPoll_def stopPoll_wait_def sync_def syncAll_def
          setMultiplexer_def setDemultiplexer_def setServer_def setServer_bind_def prim_defs
          Let_def split: if_splits)
  have frame_stopped: "stopped s'"
    if "exec_frame g s = (s', gs)" "g \<noteq> StartPoll" "stopped s" for g s s' gs
    using that
    by (cases g)
       (auto simp: stopPoll_def stopPoll_wait_def sync_def syncAll_def
          setMultiplexer_def setDemultiplexer_def setServer_def setServer_bind_def prim_defs
          Let_def split: if_splits)
  have frame_wait: "(connectionInProgress s \<and> gs = [StopPollWait]) \<or>
                    (\<not> connectionInProgress s \<and> gs = [])"
    if "stopPoll_wait s = (s', gs)" for s s' gs
    using that by (auto simp: stopPoll_wait_def prim_defs Let_def split: if_splits)
  have worker_stopped: "stopped s' \<and> (\<not> connectionInProgress s \<longrightarrow> \<not> connectionInProgress s')"
    if "io_run e s = Some s'" "stopped s" for e s s'
    using that
    by (auto simp: io_run_def executeTask_begin_def executeTask_response_def
          executeTask_processed_def executeTask_rearm_def executeTask_catch_def prim_defs Let_def
          split: thread_state.splits if_splits outcome.splits option.splits)
  have wstep: "i < length (callers d') \<and> stopped (chan d') \<and>
         (callers d' ! i = StopPollWait # fs \<or> \<not> connectionInProgress (chan d'))"
    if st: "step a d = Some d'" and ns: "\<not> runs_startPoll a d"
      and id: "i < length (callers d)" and sp: "stopped (chan d)"
      and w: "callers d ! i = StopPollWait # fs \<or> \<not> connectionInProgress (chan d)"
    for a d d'
  proof (cases a)
    case (Call g)
    with st id sp w show ?thesis
      by (auto simp: step_def nth_append split: if_splits)
  next
    case (Work e)
    with st obtain s' where s': "io_run e (chan d) = Some s'" "d' = d\<lparr>chan := s'\<rparr>"
      by (auto simp: step_def split: if_splits option.splits)
    with worker_stopped[OF s'(1) sp] id w show ?thesis by auto
  next
    case (Run j)
    with st obtain g gs s' gs' where r: "j < length (callers d)" "callers d ! j = g # gs"
      "exec_frame g (chan d) = (s', gs')"
      "d' = \<lparr>chan = s', callers = (callers d)[j := gs' @ gs]\<rparr>"
      by (auto simp: step_def split: if_splits list.splits prod.splits)
    from r ns Run have nf: "g \<noteq> StartPoll" by (auto simp: runs_startPoll_def)
    from frame_stopped[OF r(3) nf sp] have sp': "stopped s'" .
    from frame_flag[OF r(3)] have cip: "connectionInProgress s' = connectionInProgress (chan d)" .
    show ?thesis
    proof (cases "j = i")
      case True
      show ?thesis
      proof (cases "connectionInProgress (chan d)")
        case True
        with w have "callers d ! i = StopPollWait # fs" by simp
        with r \<open>j = i\<close> have "g = StopPollWait" "gs = fs" by auto
        with r True have "gs' = [StopPollWait]" by (auto dest: frame_wait)
        with r \<open>j = i\<close> \<open>gs = fs\<close> id sp' show ?thesis by auto
      next
        case False
        with r cip id sp' show ?thesis by auto
      qed
    next
      case False
      with r id sp' cip w show ?thesis by auto
    qed
  qed
  have wrun: "stopped (chan d') \<and>
         (callers d' ! i = StopPollWait # fs \<or> \<not> connectionInProgress (chan d'))"
    if "run as d = Some d'" "no_startPoll as d" "i < length (callers d)" "stopped (chan d)"
      "callers d ! i = StopPollWait # fs \<or> \<not> connectionInProgress (chan d)"
    for as d d'
    using that
  proof (induction as arbitrary: d)
    case Nil
    then show ?case by simp
  next
    case (Cons a as)
    from Cons.prems(1) obtain d1 where st: "step a d = Some d1" and r: "run as d1 = Some d'"
      by (auto split: option.splits)
    from Cons.prems(2) st have ns: "\<not> runs_startPoll a d" and nr: "no_startPoll as d1" by auto
    from wstep[OF st ns Cons.prems(3) Cons.prems(4) Cons.prems(5)]
    have "i < length (callers d1)" "stopped (chan d1)"
      "callers d1 ! i = StopPollWait # fs \<or> \<not> connectionInProgress (chan d1)" by auto
    with Cons.IH[OF r nr] show ?case by blast
  qed
  have 2: "callers c' ! i = StopPollWait # fs
        \<or> (stopped (chan c') \<and> \<not> connectionInProgress (chan c'))"
    if r: "\<not> stopped (chan c) \<and> connectionInProgress (chan c)"
      and h: "step (Run i) c = Some c1" "run as c1 = Some c'" "no_startPoll as c1"
    for c1 as c'
  proof -
    from 1[OF r] h(1) i have c1: "i < length (callers c1)" "stopped (chan c1)"
      "callers c1 ! i = StopPollWait # fs" by auto
    from wrun[OF h(2) h(3) c1(1) c1(2)] c1(3) show ?thesis by blast
  qed
  have 3: "a = Run i \<and> \<not> connectionInProgress (chan c2) \<and>
              \<not> connectionInProgress (chan c3) \<and> callers c3 ! i = fs"
    if st: "step a c2 = Some c3" and i2: "i < length (callers c2)"
      and w: "callers c2 ! i = StopPollWait # fs" and l: "callers c3 ! i \<noteq> StopPollWait # fs"
    for a c2 c3
  proof (cases a)
    case (Call g)
    with st i2 w l show ?thesis
      by (auto simp: step_def nth_append split: if_splits)
  next
    case (Work e)
    with st w l show ?thesis
      by (auto simp: step_def split: if_splits option.splits)
  next
    case (Run j)
    show ?thesis
    proof (cases "j = i")
      case False
      with Run st w l show ?thesis
        by (auto simp: step_def split: if_splits list.splits prod.splits)
    next
      case True
      with Run st i2 w l show ?thesis
        by (auto simp: step_def stopPoll_wait_def prim_defs Let_def split: if_splits)
    qed
  qed
  have 4: "step (Run i) c =
            Some \<lparr>chan = (chan c)\<lparr>trace := trace (chan c) @
                     [(False, Log INFO ''Stopping poll future..'')]\<rparr>,
                  callers = (callers c)[i := fs]\<rparr>"
    if "stopped (chan c)"
    using that i f alive free by (simp add: step_def stopPoll_def prim_defs Let_def)
  from 1 2 3 4 show ?thesis by blast
qed

text \<open>The theorem at the channel \<open>in_flight\<close>: the caller waits; the worker's
  \<^verbatim>\<open>sendRequest\<close> throws, the handler clears the flag, and the caller returns. When
  another thread runs \<^verbatim>\<open>startPoll\<close> during the wait, the caller still waits.\<close>

theorem stopPoll_blocks_until_quiescent_witness:
  "step (Run 0) \<lparr>chan = in_flight, callers = [[StopPoll]]\<rparr> =
     Some \<lparr>chan = in_flight\<lparr>stopped := True,
              trace := [(False, Log INFO ''Stopping poll future..''), (True, CloseConnection)]\<rparr>,
           callers = [[StopPollWait]]\<rparr>
   \<and> (\<exists>c'. run [Run 0, Work env_send_throws, Work env_ok, Run 0]
              \<lparr>chan = in_flight, callers = [[StopPoll]]\<rparr> = Some c'
           \<and> callers c' ! 0 = []
           \<and> stopped (chan c') \<and> \<not> connectionInProgress (chan c'))
   \<and> (\<exists>c2 c3. run [Run 0, Call StartPoll, Run 1]
                 \<lparr>chan = in_flight, callers = [[StopPoll]]\<rparr> = Some c2
           \<and> \<not> stopped (chan c2) \<and> connectionInProgress (chan c2)
           \<and> step (Run 0) c2 = Some c3 \<and> callers c3 ! 0 = [StopPollWait])"
proof -
  let ?c = "\<lparr>chan = in_flight, callers = [[StopPoll]]\<rparr>"
  let ?as = "[Work env_send_throws, Work env_ok, Run 0]"
  have h: "0 < length (callers ?c)" "callers ?c ! 0 = StopPoll # []"
    "\<not> aborted (pollThread (chan ?c))" "\<not> channelGuard (chan ?c)"
    by (simp_all add: example_defs)
  have run: "\<not> stopped (chan ?c) \<and> connectionInProgress (chan ?c)"
    by (simp add: example_defs)
  note th = stopPoll_blocks_until_quiescent[OF h]
  from th run have first: "step (Run 0) ?c =
     Some \<lparr>chan = in_flight\<lparr>stopped := True,
              trace := [(False, Log INFO ''Stopping poll future..''), (True, CloseConnection)]\<rparr>,
           callers = [[StopPollWait]]\<rparr>"
    by (simp add: example_defs)
  let ?c1 = "\<lparr>chan = in_flight\<lparr>stopped := True,
              trace := [(False, Log INFO ''Stopping poll future..''), (True, CloseConnection)]\<rparr>,
           callers = [[StopPollWait]]\<rparr>"
  obtain c' where c': "run ?as ?c1 = Some c'" and fin: "callers c' ! 0 = []"
    by (simp add: model_defs example_defs)
  have ns: "no_startPoll ?as ?c1"
    by (simp add: model_defs example_defs)
  from th run first c' ns
  have "callers c' ! 0 = StopPollWait # []
        \<or> (stopped (chan c') \<and> \<not> connectionInProgress (chan c'))"
    by blast
  with fin have q: "stopped (chan c') \<and> \<not> connectionInProgress (chan c')" by simp
  from first c' have r: "run (Run 0 # ?as) ?c = Some c'" by simp
  obtain c2 where c2: "run [Call StartPoll, Run 1] ?c1 = Some c2"
    and g: "\<not> stopped (chan c2)" "connectionInProgress (chan c2)"
      "0 < length (callers c2)" "callers c2 ! 0 = StopPollWait # []"
    by (simp add: model_defs example_defs)
  obtain c3 where c3: "step (Run 0) c2 = Some c3"
    using c2 by (auto simp: model_defs example_defs)
  from th c3 g have "callers c3 ! 0 = StopPollWait # []" by blast
  moreover from first c2 have "run [Run 0, Call StartPoll, Run 1] ?c = Some c2" by simp
  ultimately show ?thesis using first fin q r g c3 by blast
qed

subsection \<open>A failed cycle\<close>

text \<open>
  Claim C2 as stated covers every collaborator call of the cycle. The call of
  \<^verbatim>\<open>compileRequest\<close> (line 98) is before the \<^verbatim>\<open>try\<close> of line 105: when it throws on
  the configured, started channel, the exception leaves the worker thread, the in-flight
  flag stays set, no waiter is signalled and \<^verbatim>\<open>onServerFailed\<close> is not called.
\<close>

theorem multiplexer_exception_not_handled:
  "map_option failure_handling (run (setup_actions @ [Work env_compile_throws]) (initial keys0))
   = Some (Aborted UncaughtException, True, [])"
  by (simp add: run_defs)

text \<open>
  Claim C2, for the exceptions thrown inside the \<^verbatim>\<open>try\<close> block. The server a cycle
  holds is the one that was current when the cycle began, and it stays the same from
  \<^verbatim>\<open>sendRequest\<close> through \<^verbatim>\<open>processResponse\<close> into the handler: the worker reaches
  each of these points only from the one before, with the same server, and no calling
  thread changes it. When \<^verbatim>\<open>sendRequest\<close>, \<^verbatim>\<open>retrieveOperationResponse\<close> or
  \<^verbatim>\<open>processResponse\<close> throws, the worker enters the handler with that server. The
  handler clears the in-flight flag and signals the waiters; if the channel is stopped it
  only logs; otherwise it sets \<^verbatim>\<open>stopped_\<close> and calls \<^verbatim>\<open>onServerFailed\<close> once with that
  server. It posts no handler.
\<close>

theorem failed_cycle_handling:
  "(pollThread s = Idle \<and> io_run e s = Some s' \<and> pollThread s' = Sending srv \<longrightarrow>
      currentServer s = Some srv)
   \<and> (io_run e s = Some s' \<longrightarrow>
        (pollThread s' = Sending srv \<longrightarrow> pollThread s = Idle \<and> currentServer s = Some srv) \<and>
        (pollThread s' = Processing srv \<longrightarrow> pollThread s = Sending srv) \<and>
        (pollThread s' = Catching srv \<longrightarrow>
           pollThread s = Sending srv \<or> pollThread s = Processing srv))
   \<and> (exec_frame f s = (s', fs') \<longrightarrow> pollThread s' = pollThread s \<or> pollThread s' = Idle)
   \<and> (pollThread s = Sending srv \<and> sendRequest e = Throws \<longrightarrow>
        io_run e s = Some (s\<lparr>pollThread := Catching srv\<rparr>))
   \<and> (pollThread s = Sending srv \<and> \<not> channelGuard s \<and>
      sendRequest e = Returns r \<and> retrieveOperationResponse e = Throws \<longrightarrow>
        io_run e s =
          Some (s\<lparr>connectionInProgress := False,
                  trace := trace s @ [(True, RetrieveOperationResponse r)],
                  pollThread := Catching srv\<rparr>))
   \<and> (pollThread s = Sending srv \<and> \<not> channelGuard s \<and> demultiplexer s = Some d \<and>
      sendRequest e = Returns r \<and> retrieveOperationResponse e = Returns p \<longrightarrow>
        io_run e s =
          Some (s\<lparr>connectionInProgress := False,
                  trace := trace s @
                    [(True, RetrieveOperationResponse r), (False, ProcessResponse d p)],
                  pollThread := Processing srv\<rparr>))
   \<and> (pollThread s = Processing srv \<and> processResponse e = Throws \<longrightarrow>
        io_run e s = Some (s\<lparr>pollThread := Catching srv\<rparr>))
   \<and> (pollThread s = Catching srv \<and> \<not> channelGuard s \<longrightarrow>
        io_run e s =
          Some (if stopped s
                then s\<lparr>connectionInProgress := False,
                       trace := trace s @
                         [(True, Log INFO ''Connection for channel %1% was aborted''),
                          (False, NotifyAll)],
                       pollThread := Idle\<rparr>
                else s\<lparr>stopped := True, connectionInProgress := False,
                       trace := trace s @
                         [(True, Log ERROR ''Connection failed, server %1%:%2%: %3%''),
                          (False, NotifyAll), (False, OnServerFailed srv)],
                       pollThread := Idle\<rparr>))"
proof -
  have 1: "currentServer s = Some srv"
    if h: "pollThread s = Idle \<and> io_run e s = Some s' \<and> pollThread s' = Sending srv"
    using h by (auto simp: worker_defs split: if_splits option.splits outcome.splits)
  have 2: "(pollThread s' = Sending srv \<longrightarrow> pollThread s = Idle \<and> currentServer s = Some srv) \<and>
        (pollThread s' = Processing srv \<longrightarrow> pollThread s = Sending srv) \<and>
        (pollThread s' = Catching srv \<longrightarrow>
           pollThread s = Sending srv \<or> pollThread s = Processing srv)"
    if h: "io_run e s = Some s'"
    using h by (auto simp: worker_defs
          split: thread_state.splits if_splits option.splits outcome.splits)
  have 3: "pollThread s' = pollThread s \<or> pollThread s' = Idle"
    if h: "exec_frame f s = (s', fs')"
    using h by (cases f)
       (auto simp: startPoll_def stopPoll_def stopPoll_wait_def sync_def syncAll_def
          setMultiplexer_def setDemultiplexer_def setServer_def setServer_bind_def prim_defs
          Let_def split: if_splits)
  have 4: "io_run e s = Some (s\<lparr>pollThread := Catching srv\<rparr>)"
    if h: "pollThread s = Sending srv \<and> sendRequest e = Throws"
    using h by (simp add: worker_defs)
  have 5: "io_run e s =
          Some (s\<lparr>connectionInProgress := False,
                  trace := trace s @ [(True, RetrieveOperationResponse r)],
                  pollThread := Catching srv\<rparr>)"
    if h: "pollThread s = Sending srv \<and> \<not> channelGuard s \<and>
      sendRequest e = Returns r \<and> retrieveOperationResponse e = Throws"
    using h by (simp add: worker_defs)
  have 6: "io_run e s =
          Some (s\<lparr>connectionInProgress := False,
                  trace := trace s @
                    [(True, RetrieveOperationResponse r), (False, ProcessResponse d p)],
                  pollThread := Processing srv\<rparr>)"
    if h: "pollThread s = Sending srv \<and> \<not> channelGuard s \<and> demultiplexer s = Some d \<and>
      sendRequest e = Returns r \<and> retrieveOperationResponse e = Returns p"
    using h by (simp add: worker_defs)
  have 7: "io_run e s = Some (s\<lparr>pollThread := Catching srv\<rparr>)"
    if h: "pollThread s = Processing srv \<and> processResponse e = Throws"
    using h by (simp add: worker_defs)
  have 8: "io_run e s =
          Some (if stopped s
                then s\<lparr>connectionInProgress := False,
                       trace := trace s @
                         [(True, Log INFO ''Connection for channel %1% was aborted''),
                          (False, NotifyAll)],
                       pollThread := Idle\<rparr>
                else s\<lparr>stopped := True, connectionInProgress := False,
                       trace := trace s @
                         [(True, Log ERROR ''Connection failed, server %1%:%2%: %3%''),
                          (False, NotifyAll), (False, OnServerFailed srv)],
                       pollThread := Idle\<rparr>)"
    if h: "pollThread s = Catching srv \<and> \<not> channelGuard s"
    using h by (simp add: worker_defs)
  from 1 2 3 4 5 6 7 8 show ?thesis by blast
qed

theorem failed_cycle_handling_witness:
  "io_run env_send_throws in_flight = Some (in_flight\<lparr>pollThread := Catching srv0\<rparr>)
   \<and> io_run env_ok (in_flight\<lparr>pollThread := Catching srv0\<rparr>) =
       Some (in_flight\<lparr>stopped := True, connectionInProgress := False,
               trace := [(True, Log ERROR ''Connection failed, server %1%:%2%: %3%''),
                         (False, NotifyAll), (False, OnServerFailed srv0)],
               pollThread := Idle\<rparr>)
   \<and> io_run env_ok (in_flight\<lparr>stopped := True, pollThread := Catching srv0\<rparr>) =
       Some (in_flight\<lparr>stopped := True, connectionInProgress := False,
               trace := [(True, Log INFO ''Connection for channel %1% was aborted''),
                         (False, NotifyAll)],
               pollThread := Idle\<rparr>)
   \<and> io_run env_process_throws in_flight =
       Some (in_flight\<lparr>connectionInProgress := False,
               trace := [(True, RetrieveOperationResponse [20]), (False, ProcessResponse 2 [30])],
               pollThread := Processing srv0\<rparr>)
   \<and> io_run env_process_throws (in_flight\<lparr>connectionInProgress := False,
               trace := [(True, RetrieveOperationResponse [20]), (False, ProcessResponse 2 [30])],
               pollThread := Processing srv0\<rparr>) =
       Some (in_flight\<lparr>connectionInProgress := False,
               trace := [(True, RetrieveOperationResponse [20]), (False, ProcessResponse 2 [30])],
               pollThread := Catching srv0\<rparr>)"
proof -
  let ?p = "in_flight\<lparr>connectionInProgress := False,
               trace := [(True, RetrieveOperationResponse [20]), (False, ProcessResponse 2 [30])],
               pollThread := Processing srv0\<rparr>"
  have 1: "pollThread in_flight = Sending srv0 \<and> sendRequest env_send_throws = Throws"
    by (simp add: example_defs)
  have 2: "pollThread (in_flight\<lparr>pollThread := Catching srv0\<rparr>) = Catching srv0
           \<and> \<not> channelGuard (in_flight\<lparr>pollThread := Catching srv0\<rparr>)"
    by (simp add: example_defs)
  have 3: "pollThread (in_flight\<lparr>stopped := True, pollThread := Catching srv0\<rparr>) = Catching srv0
           \<and> \<not> channelGuard (in_flight\<lparr>stopped := True, pollThread := Catching srv0\<rparr>)"
    by (simp add: example_defs)
  have 4: "pollThread in_flight = Sending srv0 \<and> \<not> channelGuard in_flight \<and>
      demultiplexer in_flight = Some 2 \<and>
      sendRequest env_process_throws = Returns [20] \<and>
      retrieveOperationResponse env_process_throws = Returns [30]"
    by (simp add: example_defs env_process_throws_def)
  have 5: "pollThread ?p = Processing srv0 \<and> processResponse env_process_throws = Throws"
    by (simp add: example_defs env_process_throws_def)
  from failed_cycle_handling[of in_flight env_send_throws _ srv0] 1
  have a: "io_run env_send_throws in_flight = Some (in_flight\<lparr>pollThread := Catching srv0\<rparr>)"
    by blast
  from failed_cycle_handling[of "in_flight\<lparr>pollThread := Catching srv0\<rparr>" env_ok _ srv0] 2
  have b: "io_run env_ok (in_flight\<lparr>pollThread := Catching srv0\<rparr>) =
       Some (in_flight\<lparr>stopped := True, connectionInProgress := False,
               trace := [(True, Log ERROR ''Connection failed, server %1%:%2%: %3%''),
                         (False, NotifyAll), (False, OnServerFailed srv0)],
               pollThread := Idle\<rparr>)"
    by (simp add: example_defs)
  from failed_cycle_handling[of "in_flight\<lparr>stopped := True, pollThread := Catching srv0\<rparr>"
         env_ok _ srv0] 3
  have c: "io_run env_ok (in_flight\<lparr>stopped := True, pollThread := Catching srv0\<rparr>) =
       Some (in_flight\<lparr>stopped := True, connectionInProgress := False,
               trace := [(True, Log INFO ''Connection for channel %1% was aborted''),
                         (False, NotifyAll)],
               pollThread := Idle\<rparr>)"
    by (simp add: example_defs)
  from failed_cycle_handling[where s = in_flight and e = env_process_throws and srv = srv0
         and d = 2 and r = "[20]" and p = "[30]"] 4
  have d: "io_run env_process_throws in_flight = Some ?p"
    by (simp add: example_defs)
  from failed_cycle_handling[where s = ?p and e = env_process_throws and srv = srv0] 5
  have e: "io_run env_process_throws ?p =
       Some (in_flight\<lparr>connectionInProgress := False,
               trace := [(True, RetrieveOperationResponse [20]), (False, ProcessResponse 2 [30])],
               pollThread := Catching srv0\<rparr>)"
    by (simp add: example_defs)
  from a b c d e show ?thesis by blast
qed

subsection \<open>Absent collaborators\<close>

text \<open>
  Claim C3 as stated: a cycle that begins with the demultiplexer unset sends no request.
  On a new channel given a multiplexer and a server but no demultiplexer, the first cycle
  sends its request.
\<close>

theorem request_sent_without_demultiplexer:
  "map_option (demultiplexer \<circ> chan) (run no_demultiplexer_actions (initial keys0)) = Some None
   \<and> map_option (filter sent \<circ> trace \<circ> chan)
       (run (no_demultiplexer_actions @ [Work env_ok]) (initial keys0))
     = Some [(False, SendRequest ''/EP/LongSync'' [10])]"
  by (simp add: run_defs)

text \<open>
  Claim C3, amended. The cycle does not test the collaborator pointers: a cycle that
  begins returns at once, with nothing called, only on a stopped channel. On a started
  channel with the multiplexer unset, the cycle sets the in-flight flag and dereferences
  the null pointer at line 98: no request is sent and nothing is escalated. With the
  multiplexer set and a server bound, the cycle sends its request when \<^verbatim>\<open>compileRequest\<close>
  and \<^verbatim>\<open>createOperationRequest\<close> return, whatever the demultiplexer pointer is. That
  pointer is read when \<^verbatim>\<open>sendRequest\<close> and \<^verbatim>\<open>retrieveOperationResponse\<close> have returned
  and the in-flight flag is cleared: if it is null at that moment it is dereferenced at
  line 117 and nothing is escalated; if it is set at that moment, the response is handed
  to it. So a cycle that begins with only the demultiplexer unset, and during which no
  thread sets it, sends its request and ends in the null dereference.
\<close>

theorem absent_collaborator_dereferenced:
  "(pollThread s = Idle \<and> io_run e s = Some s' \<and> pollThread s' = Idle \<longrightarrow>
      stopped s \<and> trace s' = trace s)
   \<and> (pollThread s = Idle \<and> 0 < io s \<and> \<not> stopped s \<and> multiplexer s = None \<longrightarrow>
      io_run e s =
        Some (s\<lparr>io := io s - 1, taskPosted := False, connectionInProgress := True,
                channelGuard := True, pollThread := Aborted NullDereference\<rparr>))
   \<and> (pollThread s = Idle \<and> 0 < io s \<and> \<not> stopped s \<and> \<not> channelGuard s \<and>
      multiplexer s = Some m \<and> currentServer s = Some srv \<and>
      compileRequest e = Returns b \<and> createOperationRequest e = Returns u \<longrightarrow>
        io_run e s =
          Some (s\<lparr>io := io s - 1, taskPosted := False, connectionInProgress := True,
                  trace := trace s @
                    [(True, CompileRequest m), (True, CreateOperationRequest (getUrl srv) b),
                     (False, SendRequest (getUrl srv) b)],
                  pollThread := Sending srv\<rparr>))
   \<and> (pollThread s = Sending srv \<and> \<not> channelGuard s \<and> demultiplexer s = None \<and>
      sendRequest e = Returns r \<and> retrieveOperationResponse e = Returns p \<longrightarrow>
        io_run e s =
          Some (s\<lparr>connectionInProgress := False,
                  trace := trace s @ [(True, RetrieveOperationResponse r)],
                  pollThread := Aborted NullDereference\<rparr>))
   \<and> (pollThread s = Sending srv \<and> \<not> channelGuard s \<and> demultiplexer s = Some d \<and>
      sendRequest e = Returns r \<and> retrieveOperationResponse e = Returns p \<longrightarrow>
        io_run e s =
          Some (s\<lparr>connectionInProgress := False,
                  trace := trace s @
                    [(True, RetrieveOperationResponse r), (False, ProcessResponse d p)],
                  pollThread := Processing srv\<rparr>))
   \<and> (pollThread (chan c) = Idle \<and> 0 < io (chan c) \<and> \<not> stopped (chan c) \<and>
      \<not> channelGuard (chan c) \<and> multiplexer (chan c) = Some m \<and>
      demultiplexer (chan c) = None \<and> currentServer (chan c) = Some srv \<and>
      compileRequest e = Returns b \<and> createOperationRequest e = Returns u \<and>
      sendRequest e = Returns r \<and> retrieveOperationResponse e = Returns p \<longrightarrow>
        run [Work e, Work e] c =
          Some (c\<lparr>chan := (chan c)\<lparr>io := io (chan c) - 1, taskPosted := False,
                  connectionInProgress := False,
                  trace := trace (chan c) @
                    [(True, CompileRequest m), (True, CreateOperationRequest (getUrl srv) b),
                     (False, SendRequest (getUrl srv) b), (True, RetrieveOperationResponse r)],
                  pollThread := Aborted NullDereference\<rparr>\<rparr>))"
proof -
  have 1: "stopped s \<and> trace s' = trace s"
    if h: "pollThread s = Idle \<and> io_run e s = Some s' \<and> pollThread s' = Idle"
    using h by (auto simp: worker_defs split: if_splits option.splits outcome.splits)
  have 2: "io_run e s =
        Some (s\<lparr>io := io s - 1, taskPosted := False, connectionInProgress := True,
                channelGuard := True, pollThread := Aborted NullDereference\<rparr>)"
    if h: "pollThread s = Idle \<and> 0 < io s \<and> \<not> stopped s \<and> multiplexer s = None"
    using h by (simp add: worker_defs)
  have 3: "io_run e s =
          Some (s\<lparr>io := io s - 1, taskPosted := False, connectionInProgress := True,
                  trace := trace s @
                    [(True, CompileRequest m), (True, CreateOperationRequest (getUrl srv) b),
                     (False, SendRequest (getUrl srv) b)],
                  pollThread := Sending srv\<rparr>)"
    if h: "pollThread s = Idle \<and> 0 < io s \<and> \<not> stopped s \<and> \<not> channelGuard s \<and>
      multiplexer s = Some m \<and> currentServer s = Some srv \<and>
      compileRequest e = Returns b \<and> createOperationRequest e = Returns u"
    using h by (simp add: worker_defs)
  have 4: "io_run e s =
          Some (s\<lparr>connectionInProgress := False,
                  trace := trace s @ [(True, RetrieveOperationResponse r)],
                  pollThread := Aborted NullDereference\<rparr>)"
    if h: "pollThread s = Sending srv \<and> \<not> channelGuard s \<and> demultiplexer s = None \<and>
      sendRequest e = Returns r \<and> retrieveOperationResponse e = Returns p"
    using h by (simp add: worker_defs)
  have 5: "io_run e s =
          Some (s\<lparr>connectionInProgress := False,
                  trace := trace s @
                    [(True, RetrieveOperationResponse r), (False, ProcessResponse d p)],
                  pollThread := Processing srv\<rparr>)"
    if h: "pollThread s = Sending srv \<and> \<not> channelGuard s \<and> demultiplexer s = Some d \<and>
      sendRequest e = Returns r \<and> retrieveOperationResponse e = Returns p"
    using h by (simp add: worker_defs)
  have 6: "run [Work e, Work e] c =
          Some (c\<lparr>chan := (chan c)\<lparr>io := io (chan c) - 1, taskPosted := False,
                  connectionInProgress := False,
                  trace := trace (chan c) @
                    [(True, CompileRequest m), (True, CreateOperationRequest (getUrl srv) b),
                     (False, SendRequest (getUrl srv) b), (True, RetrieveOperationResponse r)],
                  pollThread := Aborted NullDereference\<rparr>\<rparr>)"
    if h: "pollThread (chan c) = Idle \<and> 0 < io (chan c) \<and> \<not> stopped (chan c) \<and>
      \<not> channelGuard (chan c) \<and> multiplexer (chan c) = Some m \<and>
      demultiplexer (chan c) = None \<and> currentServer (chan c) = Some srv \<and>
      compileRequest e = Returns b \<and> createOperationRequest e = Returns u \<and>
      sendRequest e = Returns r \<and> retrieveOperationResponse e = Returns p"
    using h by (simp add: step_def worker_defs)
  from 1 2 3 4 5 6 show ?thesis by blast
qed

theorem absent_collaborator_dereferenced_witness:
  "io_run env_ok (armed\<lparr>multiplexer := None\<rparr>) =
     Some (armed\<lparr>multiplexer := None, io := 0, taskPosted := False,
             connectionInProgress := True, channelGuard := True,
             pollThread := Aborted NullDereference\<rparr>)
   \<and> io_run env_ok (armed\<lparr>demultiplexer := None\<rparr>) =
       Some (armed\<lparr>demultiplexer := None, io := 0, taskPosted := False,
               connectionInProgress := True,
               trace := [(True, CompileRequest 1),
                         (True, CreateOperationRequest ''/EP/LongSync'' [10]),
                         (False, SendRequest ''/EP/LongSync'' [10])],
               pollThread := Sending srv0\<rparr>)
   \<and> io_run env_ok (in_flight\<lparr>demultiplexer := None\<rparr>) =
       Some (in_flight\<lparr>demultiplexer := None, connectionInProgress := False,
               trace := [(True, RetrieveOperationResponse [20])],
               pollThread := Aborted NullDereference\<rparr>)
   \<and> run [Work env_ok, Work env_ok] \<lparr>chan = armed\<lparr>demultiplexer := None\<rparr>, callers = []\<rparr> =
       Some \<lparr>chan = armed\<lparr>demultiplexer := None, io := 0, taskPosted := False,
                 trace := [(True, CompileRequest 1),
                           (True, CreateOperationRequest ''/EP/LongSync'' [10]),
                           (False, SendRequest ''/EP/LongSync'' [10]),
                           (True, RetrieveOperationResponse [20])],
                 pollThread := Aborted NullDereference\<rparr>,
             callers = []\<rparr>
   \<and> (\<exists>c2. run late_demultiplexer_actions (initial keys0) = Some c2
          \<and> pollThread (chan c2) = Sending srv0
          \<and> io_run env_ok (chan c2) =
              Some ((chan c2)\<lparr>connectionInProgress := False,
                      trace := trace (chan c2) @
                        [(True, RetrieveOperationResponse [20]), (False, ProcessResponse 2 [30])],
                      pollThread := Processing srv0\<rparr>))"
proof -
  have 1: "pollThread (armed\<lparr>multiplexer := None\<rparr>) = Idle \<and> 0 < io (armed\<lparr>multiplexer := None\<rparr>)
           \<and> \<not> stopped (armed\<lparr>multiplexer := None\<rparr>)
           \<and> multiplexer (armed\<lparr>multiplexer := None\<rparr>) = None"
    by (simp add: run_defs)
  let ?s = "armed\<lparr>demultiplexer := None\<rparr>"
  have 2: "pollThread ?s = Idle \<and> 0 < io ?s \<and> \<not> stopped ?s \<and> \<not> channelGuard ?s \<and>
      multiplexer ?s = Some 1 \<and> currentServer ?s = Some srv0 \<and>
      compileRequest env_ok = Returns [10] \<and> createOperationRequest env_ok = Returns ()"
    by (simp add: run_defs)
  let ?t = "in_flight\<lparr>demultiplexer := None\<rparr>"
  have 3: "pollThread ?t = Sending srv0 \<and> \<not> channelGuard ?t \<and> demultiplexer ?t = None \<and>
      sendRequest env_ok = Returns [20] \<and> retrieveOperationResponse env_ok = Returns [30]"
    by (simp add: run_defs)
  let ?c = "\<lparr>chan = ?s, callers = []\<rparr>"
  have 4: "pollThread (chan ?c) = Idle \<and> 0 < io (chan ?c) \<and> \<not> stopped (chan ?c) \<and>
      \<not> channelGuard (chan ?c) \<and> multiplexer (chan ?c) = Some 1 \<and>
      demultiplexer (chan ?c) = None \<and> currentServer (chan ?c) = Some srv0 \<and>
      compileRequest env_ok = Returns [10] \<and> createOperationRequest env_ok = Returns () \<and>
      sendRequest env_ok = Returns [20] \<and> retrieveOperationResponse env_ok = Returns [30]"
    by (simp add: run_defs)
  from absent_collaborator_dereferenced[where s = "armed\<lparr>multiplexer := None\<rparr>" and e = env_ok] 1
  have a: "io_run env_ok (armed\<lparr>multiplexer := None\<rparr>) =
     Some (armed\<lparr>multiplexer := None, io := 0, taskPosted := False,
             connectionInProgress := True, channelGuard := True,
             pollThread := Aborted NullDereference\<rparr>)"
    by (simp add: run_defs)
  from absent_collaborator_dereferenced[where s = ?s and e = env_ok and m = 1 and srv = srv0
         and b = "[10]" and u = "()"] 2
  have b: "io_run env_ok ?s =
       Some (armed\<lparr>demultiplexer := None, io := 0, taskPosted := False,
               connectionInProgress := True,
               trace := [(True, CompileRequest 1),
                         (True, CreateOperationRequest ''/EP/LongSync'' [10]),
                         (False, SendRequest ''/EP/LongSync'' [10])],
               pollThread := Sending srv0\<rparr>)"
    by (simp add: run_defs)
  from absent_collaborator_dereferenced[where s = ?t and e = env_ok and srv = srv0
         and r = "[20]" and p = "[30]"] 3
  have c: "io_run env_ok ?t =
       Some (in_flight\<lparr>demultiplexer := None, connectionInProgress := False,
               trace := [(True, RetrieveOperationResponse [20])],
               pollThread := Aborted NullDereference\<rparr>)"
    by (simp add: run_defs)
  from absent_collaborator_dereferenced[where c = ?c and e = env_ok and m = 1 and srv = srv0
         and b = "[10]" and u = "()" and r = "[20]" and p = "[30]"] 4
  have d: "run [Work env_ok, Work env_ok] ?c =
       Some \<lparr>chan = armed\<lparr>demultiplexer := None, io := 0, taskPosted := False,
                 trace := [(True, CompileRequest 1),
                           (True, CreateOperationRequest ''/EP/LongSync'' [10]),
                           (False, SendRequest ''/EP/LongSync'' [10]),
                           (True, RetrieveOperationResponse [20])],
                 pollThread := Aborted NullDereference\<rparr>,
             callers = []\<rparr>"
    by (simp add: run_defs del: run.simps)
  obtain c2 where c2: "run late_demultiplexer_actions (initial keys0) = Some c2"
    and g: "pollThread (chan c2) = Sending srv0" "\<not> channelGuard (chan c2)"
      "demultiplexer (chan c2) = Some 2"
    by (simp add: run_defs late_demultiplexer_actions_def)
  have 5: "sendRequest env_ok = Returns [20] \<and> retrieveOperationResponse env_ok = Returns [30]"
    by (simp add: run_defs)
  from absent_collaborator_dereferenced[where s = "chan c2" and e = env_ok and srv = srv0
         and d = 2 and r = "[20]" and p = "[30]"] g 5
  have e: "io_run env_ok (chan c2) =
              Some ((chan c2)\<lparr>connectionInProgress := False,
                      trace := trace (chan c2) @
                        [(True, RetrieveOperationResponse [20]), (False, ProcessResponse 2 [30])],
                      pollThread := Processing srv0\<rparr>)"
    by blast
  from a b c d c2 g e show ?thesis by blast
qed

subsection \<open>A successful cycle\<close>




subsection \<open>A cycle on a stopped channel\<close>

text \<open>
  Claim C5 as stated: the in-flight flag is set only while the channel is started. After
  the first cycle of the configured channel has sent its request, a thread calls
  \<^verbatim>\<open>stopPoll\<close>: the channel is stopped and the request is still in flight.
\<close>

theorem inFlight_while_stopped:
  "map_option stopped_and_inFlight
     (run (setup_actions @ [Work env_ok, Call StopPoll, Run 3]) (initial keys0))
   = Some (True, True)"
  by (simp add: run_defs)

text \<open>
  Claim C5, amended. A cycle that finds the channel stopped clears \<^verbatim>\<open>taskPosted_\<close> and
  returns: nothing is sent, no collaborator is called, the in-flight flag is not touched.
  A step that sets the in-flight flag is a step of the worker starting a cycle on a channel
  that is started before and after the step. In every reachable configuration in which the
  channel is stopped with a request in flight, a thread is waiting in \<^verbatim>\<open>stopPoll\<close>.
\<close>

theorem stopped_cycle_aborts:
  "(pollThread s = Idle \<and> 0 < io s \<and> stopped s \<and> \<not> channelGuard s \<longrightarrow>
      io_run e s = Some (s\<lparr>io := io s - 1, taskPosted := False\<rparr>))
   \<and> (step a c = Some c' \<and> \<not> connectionInProgress (chan c) \<and> connectionInProgress (chan c') \<longrightarrow>
        \<not> stopped (chan c) \<and> \<not> stopped (chan c') \<and> pollThread (chan c) = Idle \<and>
        (\<exists>e'. a = Work e'))
   \<and> (reachable keys c \<and> connectionInProgress (chan c) \<and> stopped (chan c) \<longrightarrow>
        waiting_in_stopPoll c)"
proof -
  have a: "pollThread s = Idle \<and> 0 < io s \<and> stopped s \<and> \<not> channelGuard s \<longrightarrow>
      io_run e s = Some (s\<lparr>io := io s - 1, taskPosted := False\<rparr>)"
    by (simp add: begin_stopped)
  have b: "\<not> stopped (chan c) \<and> \<not> stopped (chan c') \<and> pollThread (chan c) = Idle \<and>
        (\<exists>e'. a = Work e')"
    if st: "step a c = Some c'" and n: "\<not> connectionInProgress (chan c)"
      and y: "connectionInProgress (chan c')"
    using st
  proof (cases rule: stepE)
    case (Call f)
    with n y show ?thesis by simp
  next
    case (Run i f fs s' fs')
    with n y show ?thesis by (auto dest: exec_frame_inFlight)
  next
    case (Work e' s')
    with n y show ?thesis by (auto dest: inFlight_set)
  qed
  have d: "reachable keys c \<and> connectionInProgress (chan c) \<and> stopped (chan c) \<longrightarrow>
        waiting_in_stopPoll c"
    using reachable_waiting_inv[of keys c] by blast
  from a b d show ?thesis by blast
qed

theorem stopped_cycle_aborts_witness:
  "io_run env_ok (armed\<lparr>stopped := True\<rparr>) =
     Some (armed\<lparr>stopped := True, io := 0, taskPosted := False\<rparr>)
   \<and> step (Work env_ok) \<lparr>chan = armed, callers = []\<rparr> \<noteq> None
   \<and> \<not> stopped armed
   \<and> (\<exists>c. run (setup_actions @ [Work env_ok, Call StopPoll, Run 3]) (initial keys0) = Some c
          \<and> connectionInProgress (chan c) \<and> stopped (chan c) \<and> waiting_in_stopPoll c)"
proof -
  let ?s = "armed\<lparr>stopped := True\<rparr>"
  let ?c = "\<lparr>chan = armed, callers = []\<rparr>"
  have 1: "pollThread ?s = Idle \<and> 0 < io ?s \<and> stopped ?s \<and> \<not> channelGuard ?s"
    by (simp add: run_defs)
  from stopped_cycle_aborts[of ?s env_ok] 1
  have a: "io_run env_ok ?s = Some (armed\<lparr>stopped := True, io := 0, taskPosted := False\<rparr>)"
    by (simp add: run_defs)
  obtain c' where c': "step (Work env_ok) ?c = Some c'"
    and f: "\<not> connectionInProgress (chan ?c)" "connectionInProgress (chan c')"
    by (simp add: run_defs)
  from stopped_cycle_aborts[of _ _ "Work env_ok" ?c c'] c' f
  have b: "\<not> stopped (chan ?c)" by blast
  obtain c where c:
    "run (setup_actions @ [Work env_ok, Call StopPoll, Run 3]) (initial keys0) = Some c"
    and g: "connectionInProgress (chan c)" "stopped (chan c)"
    by (simp add: run_defs)
  from run_reachable[OF c reachable_initial] g
    stopped_cycle_aborts[where c = c and keys = keys0]
  have "waiting_in_stopPoll c" by blast
  with a b c' c g show ?thesis by auto
qed

subsection \<open>Starting and stopping twice; the worker thread\<close>

text \<open>
  Claim C6. In every reachable configuration the worker thread has been created once if
  \<^verbatim>\<open>startPoll\<close> has run (\<^verbatim>\<open>firstStart_\<close> is cleared) and never otherwise; the first
  \<^verbatim>\<open>startPoll\<close> creates it and a later one does not create another. \<^verbatim>\<open>startPoll\<close> on a
  running channel and \<^verbatim>\<open>stopPoll\<close> on a stopped channel change nothing but the log.
\<close>

theorem start_stop_idempotent_single_worker:
  assumes r: "reachable keys c"
  shows "threads_created (chan c) = (if firstStart (chan c) then 0 else 1)
     \<and> (firstStart (chan c) \<longrightarrow>
          threads_created (startPoll (chan c)) = 1 \<and> \<not> firstStart (startPoll (chan c)))
     \<and> (\<not> firstStart (chan c) \<longrightarrow> threads_created (startPoll (chan c)) = 1)
     \<and> (\<not> stopped (chan c) \<and> \<not> aborted (pollThread (chan c)) \<longrightarrow>
          startPoll (chan c) =
            (chan c)\<lparr>trace := trace (chan c) @
               [(False, Log INFO ''Starting poll scheduler..''),
                (True, Log INFO ''Poll scheduler is already started'')]\<rparr>)
     \<and> (stopped (chan c) \<and> \<not> aborted (pollThread (chan c)) \<longrightarrow>
          stopPoll (chan c) =
            ((chan c)\<lparr>trace := trace (chan c) @
               [(False, Log INFO ''Stopping poll future..'')]\<rparr>, []))"
proof -
  from r have inv: "worker_inv (chan c)" by (rule reachable_worker_inv)
  have 1: "threads_created (chan c) = (if firstStart (chan c) then 0 else 1)"
    using inv by (simp add: worker_inv_def split: if_splits)
  have 2: "firstStart (chan c) \<longrightarrow>
          threads_created (startPoll (chan c)) = 1 \<and> \<not> firstStart (startPoll (chan c))"
    using 1 startPoll_first[of "chan c"] by simp
  have 3: "\<not> firstStart (chan c) \<longrightarrow> threads_created (startPoll (chan c)) = 1"
    using 1 by (simp add: startPoll_def prim_defs Let_def threads_created_def)
  have 4: "\<not> stopped (chan c) \<and> \<not> aborted (pollThread (chan c)) \<longrightarrow>
          startPoll (chan c) =
            (chan c)\<lparr>trace := trace (chan c) @
               [(False, Log INFO ''Starting poll scheduler..''),
                (True, Log INFO ''Poll scheduler is already started'')]\<rparr>"
    using inv by (auto simp: worker_inv_def intro!: startPoll_started split: if_splits)
  have 5: "stopped (chan c) \<and> \<not> aborted (pollThread (chan c)) \<longrightarrow>
          stopPoll (chan c) =
            ((chan c)\<lparr>trace := trace (chan c) @
               [(False, Log INFO ''Stopping poll future..'')]\<rparr>, [])"
    using inv by (auto simp: worker_inv_def intro!: stopPoll_stopped split: if_splits)
  from 1 2 3 4 5 show ?thesis by blast
qed

theorem start_stop_idempotent_single_worker_witness:
  "\<exists>c. run start_stop_actions (initial keys0) = Some c
       \<and> threads_created (chan c) = 1
       \<and> startPoll (chan c) =
            (chan c)\<lparr>trace := trace (chan c) @
               [(False, Log INFO ''Starting poll scheduler..''),
                (True, Log INFO ''Poll scheduler is already started'')]\<rparr>"
proof -
  obtain c where c: "run start_stop_actions (initial keys0) = Some c"
    and f: "\<not> firstStart (chan c)" "\<not> stopped (chan c)" "\<not> aborted (pollThread (chan c))"
    by (simp add: run_defs start_stop_actions_def)
  note th = start_stop_idempotent_single_worker[OF run_reachable[OF c reachable_initial]]
  from th f have "threads_created (chan c) = 1" by simp
  moreover from th f have "startPoll (chan c) =
            (chan c)\<lparr>trace := trace (chan c) @
               [(False, Log INFO ''Starting poll scheduler..''),
                (True, Log INFO ''Poll scheduler is already started'')]\<rparr>" by blast
  ultimately show ?thesis using c by blast
qed

subsection \<open>Binding a server\<close>

text \<open>
  Claim C7. A thread calls \<^verbatim>\<open>setServer\<close>. A descriptor of another kind than \<open>HTTP_LP\<close> is
  rejected: an error is logged and nothing else changes. With a descriptor of kind
  \<open>HTTP_LP\<close> the thread goes on with \<^verbatim>\<open>stopPoll\<close>, the critical section that replaces the
  server and the encoder, and \<^verbatim>\<open>startPoll\<close>, in this order. With a request in flight on
  a running channel it closes the connection and waits inside \<^verbatim>\<open>stopPoll\<close>; as long as
  the request is in flight a step of the waiting thread changes nothing; once no request
  is in flight its next three steps leave the wait, bind the new server with the encoder
  made from the client keys and the server's public key, and start the channel (posting a
  handler if it was stopped). When \<^verbatim>\<open>stopPoll\<close> has nothing to wait for (no request in
  flight, or the channel already stopped), the four steps of the thread end with the new
  server bound, that encoder, and the channel started with a handler posted.
\<close>

theorem setServer_rebinds:
  assumes i: "i < length (callers c)" and f: "callers c ! i = SetServer srv # fs"
    and alive: "\<not> aborted (pollThread (chan c))" and free: "\<not> channelGuard (chan c)"
  shows
    "(getType srv \<noteq> HTTP_LP \<longrightarrow>
        step (Run i) c =
          Some \<lparr>chan = (chan c)\<lparr>trace := trace (chan c) @
                   [(False, Log ERROR ''Invalid server info for channel %1%'')]\<rparr>,
                callers = (callers c)[i := fs]\<rparr>)
     \<and> (getType srv = HTTP_LP \<longrightarrow>
          step (Run i) c =
            Some \<lparr>chan = chan c,
                  callers = (callers c)[i := StopPoll # SetServerBind srv # StartPoll # fs]\<rparr>)
     \<and> (getType srv = HTTP_LP \<and> \<not> stopped (chan c) \<and> connectionInProgress (chan c) \<longrightarrow>
          run [Run i, Run i, Run i] c =
            Some \<lparr>chan = (chan c)\<lparr>stopped := True,
                     trace := trace (chan c) @
                       [(False, Log INFO ''Stopping poll future..''), (True, CloseConnection)]\<rparr>,
                  callers = (callers c)[i := StopPollWait # SetServerBind srv # StartPoll # fs]\<rparr>)
     \<and> (\<forall>c2. i < length (callers c2) \<and>
           callers c2 ! i = StopPollWait # SetServerBind srv # StartPoll # fs \<and>
           \<not> aborted (pollThread (chan c2)) \<and> \<not> channelGuard (chan c2) \<longrightarrow>
           (connectionInProgress (chan c2) \<longrightarrow> step (Run i) c2 = Some c2) \<and>
           (\<not> connectionInProgress (chan c2) \<longrightarrow>
              (\<exists>s'. run [Run i, Run i, Run i] c2 =
                      Some \<lparr>chan = s', callers = (callers c2)[i := fs]\<rparr>
                 \<and> s' = startPoll (setServer_bind srv (chan c2))
                 \<and> currentServer s' = Some srv
                 \<and> encoderDecoder s' =
                     Some (RsaEncoderDecoder (fst (clientKeys (chan c2)))
                             (snd (clientKeys (chan c2))) (getPublicKey srv))
                 \<and> \<not> stopped s'
                 \<and> (stopped (chan c2) \<longrightarrow> taskPosted s' \<and> io s' = io (chan c2) + 1))))
     \<and> (getType srv = HTTP_LP \<and> (\<not> connectionInProgress (chan c) \<or> stopped (chan c)) \<longrightarrow>
          (\<exists>s'. run [Run i, Run i, Run i, Run i] c =
                  Some \<lparr>chan = s', callers = (callers c)[i := fs]\<rparr>
             \<and> s' = startPoll (setServer_bind srv (fst (stopPoll (chan c))))
             \<and> currentServer s' = Some srv
             \<and> encoderDecoder s' =
                 Some (RsaEncoderDecoder (fst (clientKeys (chan c))) (snd (clientKeys (chan c)))
                         (getPublicKey srv))
             \<and> \<not> stopped s' \<and> taskPosted s' \<and> io s' = io (chan c) + 1))"
proof -
  have stop_returns: "stopPoll s =
     (s\<lparr>stopped := True, trace := trace s @ [(False, Log INFO ''Stopping poll future..'')]\<rparr>, [])"
    if "\<not> connectionInProgress s \<or> stopped s" "\<not> channelGuard s" for s
    using that by (auto simp: stopPoll_def prim_defs Let_def)
  have bind: "setServer_bind srv s =
     s\<lparr>currentServer := Some srv,
       encoderDecoder :=
         Some (RsaEncoderDecoder (fst (clientKeys s)) (snd (clientKeys s)) (getPublicKey srv))\<rparr>"
    if "\<not> channelGuard s" for s
    using that by (simp add: setServer_bind_def prim_defs Let_def)
  have bind_thread: "pollThread (setServer_bind srv s) = pollThread s" for s
    by (simp add: setServer_bind_def prim_defs Let_def)
  have start: "\<not> stopped (startPoll s) \<and> currentServer (startPoll s) = currentServer s \<and>
     encoderDecoder (startPoll s) = encoderDecoder s \<and>
     (stopped s \<longrightarrow> taskPosted (startPoll s) \<and> io (startPoll s) = io s + 1)" for s
    by (simp add: startPoll_def prim_defs Let_def)
  have frame: "step (Run i) d = Some \<lparr>chan = s', callers = (callers d)[i := gs' @ gs]\<rparr>"
    if "\<not> aborted (pollThread (chan d))" "i < length (callers d)" "callers d ! i = g # gs"
      "exec_frame g (chan d) = (s', gs')" for d g gs s' gs'
    using that by (simp add: step_def)
  have wrong: "step (Run i) c =
          Some \<lparr>chan = (chan c)\<lparr>trace := trace (chan c) @
                   [(False, Log ERROR ''Invalid server info for channel %1%'')]\<rparr>,
                callers = (callers c)[i := fs]\<rparr>" if "getType srv \<noteq> HTTP_LP"
    using that i f alive free by (simp add: step_def setServer_def prim_defs)
  let ?c1 = "\<lparr>chan = chan c,
              callers = (callers c)[i := StopPoll # SetServerBind srv # StartPoll # fs]\<rparr>"
  have first: "step (Run i) c = Some ?c1" if "getType srv = HTTP_LP"
    using that i f alive by (simp add: step_def setServer_def)
  have waits: "run [Run i, Run i, Run i] c =
            Some \<lparr>chan = (chan c)\<lparr>stopped := True,
                     trace := trace (chan c) @
                       [(False, Log INFO ''Stopping poll future..''), (True, CloseConnection)]\<rparr>,
                  callers = (callers c)[i := StopPollWait # SetServerBind srv # StartPoll # fs]\<rparr>"
    if k: "getType srv = HTTP_LP" and r: "\<not> stopped (chan c)" "connectionInProgress (chan c)"
    using first[OF k] i alive free r
    by (simp add: step_def stopPoll_def stopPoll_wait_def prim_defs Let_def)
  have stutter: "step (Run i) c2 = Some c2"
    if h: "i < length (callers c2)"
      "callers c2 ! i = StopPollWait # SetServerBind srv # StartPoll # fs"
      "\<not> aborted (pollThread (chan c2))" "\<not> channelGuard (chan c2)"
      "connectionInProgress (chan c2)" for c2
  proof -
    from h have "exec_frame StopPollWait (chan c2) = (chan c2, [StopPollWait])"
      by (simp add: stopPoll_wait_def prim_defs Let_def)
    from frame[OF h(3) h(1) h(2) this] h(1) h(2) show ?thesis
      by (simp add: list_update_same_conv[THEN iffD2])
  qed
  have after: "\<exists>s'. run [Run i, Run i, Run i] c2 =
                      Some \<lparr>chan = s', callers = (callers c2)[i := fs]\<rparr>
                 \<and> s' = startPoll (setServer_bind srv (chan c2))
                 \<and> currentServer s' = Some srv
                 \<and> encoderDecoder s' =
                     Some (RsaEncoderDecoder (fst (clientKeys (chan c2)))
                             (snd (clientKeys (chan c2))) (getPublicKey srv))
                 \<and> \<not> stopped s'
                 \<and> (stopped (chan c2) \<longrightarrow> taskPosted s' \<and> io s' = io (chan c2) + 1)"
    if h: "i < length (callers c2)"
      "callers c2 ! i = StopPollWait # SetServerBind srv # StartPoll # fs"
      "\<not> aborted (pollThread (chan c2))" "\<not> channelGuard (chan c2)"
      "\<not> connectionInProgress (chan c2)" for c2
  proof -
    let ?s2 = "setServer_bind srv (chan c2)"
    let ?cs2 = "(callers c2)[i := SetServerBind srv # StartPoll # fs]"
    let ?cs3 = "(callers c2)[i := StartPoll # fs]"
    from h have e1: "exec_frame StopPollWait (chan c2) = (chan c2, [])"
      by (simp add: stopPoll_wait_def prim_defs Let_def)
    have a3: "\<not> aborted (pollThread ?s2)" using h(3) by (simp add: bind_thread)
    have st1: "step (Run i) c2 = Some \<lparr>chan = chan c2, callers = ?cs2\<rparr>"
      using frame[OF h(3) h(1) h(2) e1] by simp
    have st2: "step (Run i) \<lparr>chan = chan c2, callers = ?cs2\<rparr> =
                 Some \<lparr>chan = ?s2, callers = ?cs3\<rparr>"
      using frame[of "\<lparr>chan = chan c2, callers = ?cs2\<rparr>" "SetServerBind srv"
          "StartPoll # fs" ?s2 "[]"] h(1) h(3) by simp
    have st3: "step (Run i) \<lparr>chan = ?s2, callers = ?cs3\<rparr> =
                 Some \<lparr>chan = startPoll ?s2, callers = (callers c2)[i := fs]\<rparr>"
      using frame[of "\<lparr>chan = ?s2, callers = ?cs3\<rparr>" StartPoll fs "startPoll ?s2" "[]"]
        a3 h(1) by simp
    from st1 st2 st3 have r: "run [Run i, Run i, Run i] c2 =
           Some \<lparr>chan = startPoll ?s2, callers = (callers c2)[i := fs]\<rparr>" by simp
    have b: "currentServer ?s2 = Some srv"
      "encoderDecoder ?s2 =
         Some (RsaEncoderDecoder (fst (clientKeys (chan c2))) (snd (clientKeys (chan c2)))
                 (getPublicKey srv))" "io ?s2 = io (chan c2)" "stopped ?s2 = stopped (chan c2)"
      using h(4) by (simp_all add: bind)
    from r b start[of ?s2] show ?thesis by simp
  qed
  have rebinds: "\<exists>s'. run [Run i, Run i, Run i, Run i] c =
                  Some \<lparr>chan = s', callers = (callers c)[i := fs]\<rparr>
             \<and> s' = startPoll (setServer_bind srv (fst (stopPoll (chan c))))
             \<and> currentServer s' = Some srv
             \<and> encoderDecoder s' =
                 Some (RsaEncoderDecoder (fst (clientKeys (chan c))) (snd (clientKeys (chan c)))
                         (getPublicKey srv))
             \<and> \<not> stopped s' \<and> taskPosted s' \<and> io s' = io (chan c) + 1"
    if k: "getType srv = HTTP_LP" and q: "\<not> connectionInProgress (chan c) \<or> stopped (chan c)"
  proof -
    let ?s1 = "(chan c)\<lparr>stopped := True,
                 trace := trace (chan c) @ [(False, Log INFO ''Stopping poll future..'')]\<rparr>"
    let ?s2 = "setServer_bind srv ?s1"
    let ?cs1 = "(callers c)[i := StopPoll # SetServerBind srv # StartPoll # fs]"
    let ?cs2 = "(callers c)[i := SetServerBind srv # StartPoll # fs]"
    let ?cs3 = "(callers c)[i := StartPoll # fs]"
    have sp: "stopPoll (chan c) = (?s1, [])"
      using q free by (rule stop_returns)
    have e1: "exec_frame StopPoll (chan c) = (?s1, [])" using sp by simp
    have a2: "\<not> aborted (pollThread ?s1)" using alive by simp
    have a3: "\<not> aborted (pollThread ?s2)" using alive by (simp add: bind_thread)
    have st2: "step (Run i) \<lparr>chan = chan c, callers = ?cs1\<rparr> = Some \<lparr>chan = ?s1, callers = ?cs2\<rparr>"
      using frame[of "\<lparr>chan = chan c, callers = ?cs1\<rparr>" StopPoll
          "SetServerBind srv # StartPoll # fs" ?s1 "[]"] alive i e1 by simp
    have st3: "step (Run i) \<lparr>chan = ?s1, callers = ?cs2\<rparr> = Some \<lparr>chan = ?s2, callers = ?cs3\<rparr>"
      using frame[of "\<lparr>chan = ?s1, callers = ?cs2\<rparr>" "SetServerBind srv"
          "StartPoll # fs" ?s2 "[]"] a2 i by simp
    have st4: "step (Run i) \<lparr>chan = ?s2, callers = ?cs3\<rparr> =
                 Some \<lparr>chan = startPoll ?s2, callers = (callers c)[i := fs]\<rparr>"
      using frame[of "\<lparr>chan = ?s2, callers = ?cs3\<rparr>" StartPoll fs "startPoll ?s2" "[]"]
        a3 i by simp
    have r: "run [Run i, Run i, Run i, Run i] c =
                  Some \<lparr>chan = startPoll ?s2, callers = (callers c)[i := fs]\<rparr>"
      using first[OF k] st2 st3 st4 by simp
    have b: "stopped ?s2" "currentServer ?s2 = Some srv"
      "encoderDecoder ?s2 =
         Some (RsaEncoderDecoder (fst (clientKeys (chan c))) (snd (clientKeys (chan c)))
                 (getPublicKey srv))" "io ?s2 = io (chan c)"
      using free by (simp_all add: bind)
    from r b start[of ?s2] sp show ?thesis by simp
  qed
  from wrong first waits stutter after rebinds show ?thesis by blast
qed

theorem setServer_rebinds_witness:
  "step (Run 0)
     \<lparr>chan = DefaultOperationLongPollChannel keys0, callers = [[SetServer srv_other]]\<rparr> =
     Some \<lparr>chan = (DefaultOperationLongPollChannel keys0)
                    \<lparr>trace := [(False, Log ERROR ''Invalid server info for channel %1%'')]\<rparr>,
           callers = [[]]\<rparr>
   \<and> (\<exists>s'. run [Run 0, Run 0, Run 0, Run 0]
              \<lparr>chan = DefaultOperationLongPollChannel keys0, callers = [[SetServer srv0]]\<rparr> =
            Some \<lparr>chan = s', callers = [[]]\<rparr>
          \<and> currentServer s' = Some srv0
          \<and> encoderDecoder s' = Some (RsaEncoderDecoder [4, 5] [6, 7] [1, 2, 3])
          \<and> \<not> stopped s' \<and> taskPosted s' \<and> io s' = 1)
   \<and> (\<exists>c2 s'. run [Run 0, Run 0, Run 0, Work env_send_throws, Work env_ok]
                 \<lparr>chan = in_flight, callers = [[SetServer srv1]]\<rparr> = Some c2
          \<and> callers c2 = [[StopPollWait, SetServerBind srv1, StartPoll]]
          \<and> currentServer (chan c2) = Some srv0 \<and> \<not> connectionInProgress (chan c2)
          \<and> run [Run 0, Run 0, Run 0] c2 = Some \<lparr>chan = s', callers = [[]]\<rparr>
          \<and> currentServer s' = Some srv1
          \<and> encoderDecoder s' = Some (RsaEncoderDecoder [4, 5] [6, 7] [8, 9])
          \<and> \<not> stopped s' \<and> taskPosted s'
          \<and> filter signalled (trace s') = [(False, NotifyAll)])"
proof -
  let ?d = "DefaultOperationLongPollChannel keys0"
  let ?c = "\<lparr>chan = ?d, callers = [[SetServer srv_other]]\<rparr>"
  let ?c' = "\<lparr>chan = ?d, callers = [[SetServer srv0]]\<rparr>"
  let ?f = "\<lparr>chan = in_flight, callers = [[SetServer srv1]]\<rparr>"
  have h: "0 < length (callers ?c)" "callers ?c ! 0 = SetServer srv_other # []"
    "\<not> aborted (pollThread (chan ?c))" "\<not> channelGuard (chan ?c)"
    by (simp_all add: example_defs)
  have h': "0 < length (callers ?c')" "callers ?c' ! 0 = SetServer srv0 # []"
    "\<not> aborted (pollThread (chan ?c'))" "\<not> channelGuard (chan ?c')"
    by (simp_all add: example_defs)
  have hf: "0 < length (callers ?f)" "callers ?f ! 0 = SetServer srv1 # []"
    "\<not> aborted (pollThread (chan ?f))" "\<not> channelGuard (chan ?f)"
    by (simp_all add: example_defs)
  have k: "getType srv_other \<noteq> HTTP_LP" by (simp add: example_defs)
  have k': "getType srv0 = HTTP_LP \<and>
            (\<not> connectionInProgress (chan ?c') \<or> stopped (chan ?c'))"
    by (simp add: example_defs)
  have kf: "getType srv1 = HTTP_LP \<and> \<not> stopped (chan ?f) \<and> connectionInProgress (chan ?f)"
    by (simp add: example_defs srv1_def)
  from setServer_rebinds[OF h] k
  have a: "step (Run 0) ?c =
     Some \<lparr>chan = ?d\<lparr>trace := [(False, Log ERROR ''Invalid server info for channel %1%'')]\<rparr>,
           callers = [[]]\<rparr>"
    by (simp add: example_defs)
  from setServer_rebinds[OF h'] k'
  obtain s' where "run [Run 0, Run 0, Run 0, Run 0] ?c' =
                  Some \<lparr>chan = s', callers = (callers ?c')[0 := []]\<rparr>"
     "currentServer s' = Some srv0"
     "encoderDecoder s' =
        Some (RsaEncoderDecoder (fst (clientKeys (chan ?c'))) (snd (clientKeys (chan ?c')))
                (getPublicKey srv0))"
     "\<not> stopped s'" "taskPosted s'" "io s' = io (chan ?c') + 1"
    by blast
  then have b: "run [Run 0, Run 0, Run 0, Run 0] ?c' = Some \<lparr>chan = s', callers = [[]]\<rparr>
          \<and> currentServer s' = Some srv0
          \<and> encoderDecoder s' = Some (RsaEncoderDecoder [4, 5] [6, 7] [1, 2, 3])
          \<and> \<not> stopped s' \<and> taskPosted s' \<and> io s' = 1"
    by (simp add: example_defs)
  note thf = setServer_rebinds[OF hf]
  let ?w = "\<lparr>chan = in_flight\<lparr>stopped := True,
                 trace := [(False, Log INFO ''Stopping poll future..''), (True, CloseConnection)]\<rparr>,
              callers = [[StopPollWait, SetServerBind srv1, StartPoll]]\<rparr>"
  from thf kf have w: "run [Run 0, Run 0, Run 0] ?f = Some ?w"
    by (simp add: example_defs del: run.simps)
  obtain c2 where c2: "run [Work env_send_throws, Work env_ok] ?w = Some c2"
    and g: "callers c2 = [[StopPollWait, SetServerBind srv1, StartPoll]]"
      "currentServer (chan c2) = Some srv0" "\<not> connectionInProgress (chan c2)"
      "stopped (chan c2)" "clientKeys (chan c2) = keys0"
      "\<not> aborted (pollThread (chan c2))" "\<not> channelGuard (chan c2)"
      "filter signalled (trace (startPoll (setServer_bind srv1 (chan c2)))) = [(False, NotifyAll)]"
    by (simp add: model_defs example_defs srv1_def)
  from w c2 have r: "run [Run 0, Run 0, Run 0, Work env_send_throws, Work env_ok] ?f = Some c2"
    using run_append[of "[Run 0, Run 0, Run 0]" "[Work env_send_throws, Work env_ok]" ?f]
    by simp
  from g have p: "0 < length (callers c2)"
    "callers c2 ! 0 = StopPollWait # SetServerBind srv1 # StartPoll # []" by simp_all
  from thf p g obtain s2 where s2: "run [Run 0, Run 0, Run 0] c2 =
                      Some \<lparr>chan = s2, callers = (callers c2)[0 := []]\<rparr>"
     "s2 = startPoll (setServer_bind srv1 (chan c2))"
     "currentServer s2 = Some srv1"
     "encoderDecoder s2 =
         Some (RsaEncoderDecoder (fst (clientKeys (chan c2))) (snd (clientKeys (chan c2)))
                 (getPublicKey srv1))"
     "\<not> stopped s2" "taskPosted s2"
    by blast
  with g have c: "run [Run 0, Run 0, Run 0] c2 = Some \<lparr>chan = s2, callers = [[]]\<rparr>
          \<and> currentServer s2 = Some srv1
          \<and> encoderDecoder s2 = Some (RsaEncoderDecoder [4, 5] [6, 7] [8, 9])
          \<and> \<not> stopped s2 \<and> taskPosted s2
          \<and> filter signalled (trace s2) = [(False, NotifyAll)]"
    by (simp add: example_defs srv1_def)
  from a b r g c show ?thesis by blast
qed

subsection \<open>Synchronisation requests\<close>

text \<open>
  Claim C8. A thread calls \<^verbatim>\<open>sync\<close> or \<^verbatim>\<open>syncAll\<close>. \<^verbatim>\<open>sync\<close> of a category whose
  direction is \<open>UP\<close> or \<open>BIDIRECTIONAL\<close>, with a server bound, goes on with \<^verbatim>\<open>stopPoll\<close>
  and then \<^verbatim>\<open>startPoll\<close>; so does \<^verbatim>\<open>syncAll\<close> with a server bound. A thread that
  goes on so ends, when \<^verbatim>\<open>stopPoll\<close> has nothing to wait for, with the channel started
  and a handler posted; with a request in flight on a running channel it closes the
  connection and waits; as long as the request is in flight a step of the waiting thread
  changes nothing; once no request is in flight its next two steps leave the wait and
  start the channel (posting a handler if it was stopped). \<^verbatim>\<open>sync\<close> with no server
  bound, \<^verbatim>\<open>sync\<close> of a category of another direction or of none, and \<^verbatim>\<open>syncAll\<close> with
  no server bound log a message and change nothing else.
\<close>

theorem sync_restarts_or_logs:
  assumes i: "i < length (callers c)"
    and alive: "\<not> aborted (pollThread (chan c))" and free: "\<not> channelGuard (chan c)"
  shows
    "(callers c ! i = Sync t # fs \<and>
      (map_of SUPPORTED_TYPES t = Some UP \<or> map_of SUPPORTED_TYPES t = Some BIDIRECTIONAL) \<and>
      currentServer (chan c) \<noteq> None \<longrightarrow>
        step (Run i) c =
          Some \<lparr>chan = chan c, callers = (callers c)[i := StopPoll # StartPoll # fs]\<rparr>
        \<and> (\<not> connectionInProgress (chan c) \<longrightarrow>
             run [Run i, Run i, Run i] c =
               Some \<lparr>chan = startPoll (fst (stopPoll (chan c))), callers = (callers c)[i := fs]\<rparr>
             \<and> \<not> stopped (startPoll (fst (stopPoll (chan c))))
             \<and> taskPosted (startPoll (fst (stopPoll (chan c))))
             \<and> io (startPoll (fst (stopPoll (chan c)))) = io (chan c) + 1))
     \<and> (callers c ! i = Sync t # fs \<and>
        (map_of SUPPORTED_TYPES t = Some UP \<or> map_of SUPPORTED_TYPES t = Some BIDIRECTIONAL) \<and>
        currentServer (chan c) = None \<longrightarrow>
          step (Run i) c =
            Some \<lparr>chan = (chan c)\<lparr>trace := trace (chan c) @
                     [(True, Log WARN ''Can't sync channel %1%. Server is null'')]\<rparr>,
                  callers = (callers c)[i := fs]\<rparr>)
     \<and> (callers c ! i = Sync t # fs \<and>
        map_of SUPPORTED_TYPES t \<noteq> Some UP \<and> map_of SUPPORTED_TYPES t \<noteq> Some BIDIRECTIONAL \<longrightarrow>
          step (Run i) c =
            Some \<lparr>chan = (chan c)\<lparr>trace := trace (chan c) @
                     [(False, Log ERROR ''Unsupported transport type for channel %1%'')]\<rparr>,
                  callers = (callers c)[i := fs]\<rparr>)
     \<and> (callers c ! i = SyncAll # fs \<and> currentServer (chan c) \<noteq> None \<longrightarrow>
          step (Run i) c =
            Some \<lparr>chan = chan c, callers = (callers c)[i := StopPoll # StartPoll # fs]\<rparr>)
     \<and> (callers c ! i = SyncAll # fs \<and> currentServer (chan c) = None \<longrightarrow>
          step (Run i) c =
            Some \<lparr>chan = (chan c)\<lparr>trace := trace (chan c) @
                     [(True, Log WARN ''Can't sync channel %1%. Server is null'')]\<rparr>,
                  callers = (callers c)[i := fs]\<rparr>)
     \<and> (\<forall>c1. i < length (callers c1) \<and> callers c1 ! i = StopPoll # StartPoll # fs \<and>
           \<not> aborted (pollThread (chan c1)) \<and> \<not> channelGuard (chan c1) \<longrightarrow>
           (\<not> connectionInProgress (chan c1) \<or> stopped (chan c1) \<longrightarrow>
              run [Run i, Run i] c1 =
                Some \<lparr>chan = startPoll (fst (stopPoll (chan c1))),
                      callers = (callers c1)[i := fs]\<rparr>
              \<and> \<not> stopped (startPoll (fst (stopPoll (chan c1))))
              \<and> taskPosted (startPoll (fst (stopPoll (chan c1))))
              \<and> io (startPoll (fst (stopPoll (chan c1)))) = io (chan c1) + 1) \<and>
           (connectionInProgress (chan c1) \<and> \<not> stopped (chan c1) \<longrightarrow>
              step (Run i) c1 =
                Some \<lparr>chan = (chan c1)\<lparr>stopped := True,
                         trace := trace (chan c1) @
                           [(False, Log INFO ''Stopping poll future..''),
                            (True, CloseConnection)]\<rparr>,
                      callers = (callers c1)[i := StopPollWait # StartPoll # fs]\<rparr>))
     \<and> (\<forall>c2. i < length (callers c2) \<and> callers c2 ! i = StopPollWait # StartPoll # fs \<and>
           \<not> aborted (pollThread (chan c2)) \<and> \<not> channelGuard (chan c2) \<longrightarrow>
           (connectionInProgress (chan c2) \<longrightarrow> step (Run i) c2 = Some c2) \<and>
           (\<not> connectionInProgress (chan c2) \<longrightarrow>
              run [Run i, Run i] c2 =
                Some \<lparr>chan = startPoll (chan c2), callers = (callers c2)[i := fs]\<rparr>
              \<and> \<not> stopped (startPoll (chan c2))
              \<and> (stopped (chan c2) \<longrightarrow>
                   taskPosted (startPoll (chan c2)) \<and>
                   io (startPoll (chan c2)) = io (chan c2) + 1)))"
proof -
  let ?up = "map_of SUPPORTED_TYPES t = Some UP \<or> map_of SUPPORTED_TYPES t = Some BIDIRECTIONAL"
  let ?c1 = "\<lparr>chan = chan c, callers = (callers c)[i := StopPoll # StartPoll # fs]\<rparr>"
  have stop_returns: "stopPoll s =
     (s\<lparr>stopped := True, trace := trace s @ [(False, Log INFO ''Stopping poll future..'')]\<rparr>, [])"
    if "\<not> connectionInProgress s \<or> stopped s" "\<not> channelGuard s" for s
    using that by (auto simp: stopPoll_def prim_defs Let_def)
  have start: "\<not> stopped (startPoll s) \<and>
     (stopped s \<longrightarrow> taskPosted (startPoll s) \<and> io (startPoll s) = io s + 1)" for s
    by (simp add: startPoll_def prim_defs Let_def)
  have frame: "step (Run i) d = Some \<lparr>chan = s', callers = (callers d)[i := gs' @ gs]\<rparr>"
    if "\<not> aborted (pollThread (chan d))" "i < length (callers d)" "callers d ! i = g # gs"
      "exec_frame g (chan d) = (s', gs')" for d g gs s' gs'
    using that by (simp add: step_def)
  have restart: "run [Run i, Run i] d =
                Some \<lparr>chan = startPoll (fst (stopPoll (chan d))),
                      callers = (callers d)[i := fs]\<rparr>
              \<and> \<not> stopped (startPoll (fst (stopPoll (chan d))))
              \<and> taskPosted (startPoll (fst (stopPoll (chan d))))
              \<and> io (startPoll (fst (stopPoll (chan d)))) = io (chan d) + 1"
    if h: "i < length (callers d)" "callers d ! i = StopPoll # StartPoll # fs"
      "\<not> aborted (pollThread (chan d))" "\<not> channelGuard (chan d)"
      "\<not> connectionInProgress (chan d) \<or> stopped (chan d)" for d
  proof -
    let ?s1 = "(chan d)\<lparr>stopped := True,
                 trace := trace (chan d) @ [(False, Log INFO ''Stopping poll future..'')]\<rparr>"
    have sp: "stopPoll (chan d) = (?s1, [])" using h(5) h(4) by (rule stop_returns)
    have e1: "exec_frame StopPoll (chan d) = (?s1, [])" using sp by simp
    have a1: "\<not> aborted (pollThread ?s1)" using h(3) by simp
    have st1: "step (Run i) d = Some \<lparr>chan = ?s1, callers = (callers d)[i := StartPoll # fs]\<rparr>"
      using frame[OF h(3) h(1) h(2) e1] by simp
    have st2: "step (Run i) \<lparr>chan = ?s1, callers = (callers d)[i := StartPoll # fs]\<rparr> =
                 Some \<lparr>chan = startPoll ?s1, callers = (callers d)[i := fs]\<rparr>"
      using frame[of "\<lparr>chan = ?s1, callers = (callers d)[i := StartPoll # fs]\<rparr>" StartPoll fs
          "startPoll ?s1" "[]"] a1 h(1) by simp
    have "stopped ?s1" "io ?s1 = io (chan d)" by simp_all
    with st1 st2 sp start[of ?s1] show ?thesis by simp
  qed
  have 1: "step (Run i) c = Some ?c1"
    if f: "callers c ! i = Sync t # fs" and "?up" "currentServer (chan c) \<noteq> None"
    using that i alive free by (auto simp: step_def sync_def prim_defs Let_def)
  have 2: "run [Run i, Run i, Run i] c =
               Some \<lparr>chan = startPoll (fst (stopPoll (chan c))), callers = (callers c)[i := fs]\<rparr>
             \<and> \<not> stopped (startPoll (fst (stopPoll (chan c))))
             \<and> taskPosted (startPoll (fst (stopPoll (chan c))))
             \<and> io (startPoll (fst (stopPoll (chan c)))) = io (chan c) + 1"
    if f: "callers c ! i = Sync t # fs" and u: "?up" "currentServer (chan c) \<noteq> None"
      and q: "\<not> connectionInProgress (chan c)"
    using 1[OF f u] restart[of ?c1] i alive free q by simp
  have 3: "step (Run i) c =
            Some \<lparr>chan = (chan c)\<lparr>trace := trace (chan c) @
                     [(True, Log WARN ''Can't sync channel %1%. Server is null'')]\<rparr>,
                  callers = (callers c)[i := fs]\<rparr>"
    if f: "callers c ! i = Sync t # fs" and "?up" "currentServer (chan c) = None"
    using that i alive free by (auto simp: step_def sync_def prim_defs Let_def)
  have 4: "step (Run i) c =
            Some \<lparr>chan = (chan c)\<lparr>trace := trace (chan c) @
                     [(False, Log ERROR ''Unsupported transport type for channel %1%'')]\<rparr>,
                  callers = (callers c)[i := fs]\<rparr>"
    if f: "callers c ! i = Sync t # fs"
      and "map_of SUPPORTED_TYPES t \<noteq> Some UP" "map_of SUPPORTED_TYPES t \<noteq> Some BIDIRECTIONAL"
    using that i alive free
    by (auto simp: step_def sync_def prim_defs Let_def split: option.splits)
  have 5: "step (Run i) c = Some ?c1"
    if f: "callers c ! i = SyncAll # fs" and "currentServer (chan c) \<noteq> None"
    using that i alive free by (auto simp: step_def syncAll_def prim_defs Let_def)
  have 6: "step (Run i) c =
            Some \<lparr>chan = (chan c)\<lparr>trace := trace (chan c) @
                     [(True, Log WARN ''Can't sync channel %1%. Server is null'')]\<rparr>,
                  callers = (callers c)[i := fs]\<rparr>"
    if f: "callers c ! i = SyncAll # fs" and "currentServer (chan c) = None"
    using that i alive free by (auto simp: step_def syncAll_def prim_defs Let_def)
  have 7: "run [Run i, Run i] c1 =
                Some \<lparr>chan = startPoll (fst (stopPoll (chan c1))),
                      callers = (callers c1)[i := fs]\<rparr>
              \<and> \<not> stopped (startPoll (fst (stopPoll (chan c1))))
              \<and> taskPosted (startPoll (fst (stopPoll (chan c1))))
              \<and> io (startPoll (fst (stopPoll (chan c1)))) = io (chan c1) + 1"
    if "i < length (callers c1)" "callers c1 ! i = StopPoll # StartPoll # fs"
      "\<not> aborted (pollThread (chan c1))" "\<not> channelGuard (chan c1)"
      "\<not> connectionInProgress (chan c1) \<or> stopped (chan c1)" for c1
    using that by (rule restart)
  have 8: "step (Run i) c1 =
                Some \<lparr>chan = (chan c1)\<lparr>stopped := True,
                         trace := trace (chan c1) @
                           [(False, Log INFO ''Stopping poll future..''),
                            (True, CloseConnection)]\<rparr>,
                      callers = (callers c1)[i := StopPollWait # StartPoll # fs]\<rparr>"
    if "i < length (callers c1)" "callers c1 ! i = StopPoll # StartPoll # fs"
      "\<not> aborted (pollThread (chan c1))" "\<not> channelGuard (chan c1)"
      "connectionInProgress (chan c1)" "\<not> stopped (chan c1)" for c1
    using that by (simp add: step_def stopPoll_def prim_defs Let_def)
  have 9: "step (Run i) c2 = Some c2"
    if h: "i < length (callers c2)" "callers c2 ! i = StopPollWait # StartPoll # fs"
      "\<not> aborted (pollThread (chan c2))" "\<not> channelGuard (chan c2)"
      "connectionInProgress (chan c2)" for c2
  proof -
    from h have "exec_frame StopPollWait (chan c2) = (chan c2, [StopPollWait])"
      by (simp add: stopPoll_wait_def prim_defs Let_def)
    from frame[OF h(3) h(1) h(2) this] h(1) h(2) show ?thesis
      by (simp add: list_update_same_conv[THEN iffD2])
  qed
  have 10: "run [Run i, Run i] c2 =
                Some \<lparr>chan = startPoll (chan c2), callers = (callers c2)[i := fs]\<rparr>
              \<and> \<not> stopped (startPoll (chan c2))
              \<and> (stopped (chan c2) \<longrightarrow>
                   taskPosted (startPoll (chan c2)) \<and>
                   io (startPoll (chan c2)) = io (chan c2) + 1)"
    if h: "i < length (callers c2)" "callers c2 ! i = StopPollWait # StartPoll # fs"
      "\<not> aborted (pollThread (chan c2))" "\<not> channelGuard (chan c2)"
      "\<not> connectionInProgress (chan c2)" for c2
  proof -
    let ?cs2 = "(callers c2)[i := StartPoll # fs]"
    from h have e1: "exec_frame StopPollWait (chan c2) = (chan c2, [])"
      by (simp add: stopPoll_wait_def prim_defs Let_def)
    have st1: "step (Run i) c2 = Some \<lparr>chan = chan c2, callers = ?cs2\<rparr>"
      using frame[OF h(3) h(1) h(2) e1] by simp
    have st2: "step (Run i) \<lparr>chan = chan c2, callers = ?cs2\<rparr> =
                 Some \<lparr>chan = startPoll (chan c2), callers = (callers c2)[i := fs]\<rparr>"
      using frame[of "\<lparr>chan = chan c2, callers = ?cs2\<rparr>" StartPoll fs
          "startPoll (chan c2)" "[]"] h(1) h(3) by simp
    from st1 st2 start[of "chan c2"] show ?thesis by simp
  qed
  have A: "(callers c ! i = Sync t # fs \<and>
      (map_of SUPPORTED_TYPES t = Some UP \<or> map_of SUPPORTED_TYPES t = Some BIDIRECTIONAL) \<and>
      currentServer (chan c) \<noteq> None \<longrightarrow>
        step (Run i) c =
          Some \<lparr>chan = chan c, callers = (callers c)[i := StopPoll # StartPoll # fs]\<rparr>
        \<and> (\<not> connectionInProgress (chan c) \<longrightarrow>
             run [Run i, Run i, Run i] c =
               Some \<lparr>chan = startPoll (fst (stopPoll (chan c))), callers = (callers c)[i := fs]\<rparr>
             \<and> \<not> stopped (startPoll (fst (stopPoll (chan c))))
             \<and> taskPosted (startPoll (fst (stopPoll (chan c))))
             \<and> io (startPoll (fst (stopPoll (chan c)))) = io (chan c) + 1))
     \<and> (callers c ! i = Sync t # fs \<and>
        (map_of SUPPORTED_TYPES t = Some UP \<or> map_of SUPPORTED_TYPES t = Some BIDIRECTIONAL) \<and>
        currentServer (chan c) = None \<longrightarrow>
          step (Run i) c =
            Some \<lparr>chan = (chan c)\<lparr>trace := trace (chan c) @
                     [(True, Log WARN ''Can't sync channel %1%. Server is null'')]\<rparr>,
                  callers = (callers c)[i := fs]\<rparr>)
     \<and> (callers c ! i = Sync t # fs \<and>
        map_of SUPPORTED_TYPES t \<noteq> Some UP \<and> map_of SUPPORTED_TYPES t \<noteq> Some BIDIRECTIONAL \<longrightarrow>
          step (Run i) c =
            Some \<lparr>chan = (chan c)\<lparr>trace := trace (chan c) @
                     [(False, Log ERROR ''Unsupported transport type for channel %1%'')]\<rparr>,
                  callers = (callers c)[i := fs]\<rparr>)
     \<and> (callers c ! i = SyncAll # fs \<and> currentServer (chan c) \<noteq> None \<longrightarrow>
          step (Run i) c =
            Some \<lparr>chan = chan c, callers = (callers c)[i := StopPoll # StartPoll # fs]\<rparr>)
     \<and> (callers c ! i = SyncAll # fs \<and> currentServer (chan c) = None \<longrightarrow>
          step (Run i) c =
            Some \<lparr>chan = (chan c)\<lparr>trace := trace (chan c) @
                     [(True, Log WARN ''Can't sync channel %1%. Server is null'')]\<rparr>,
                  callers = (callers c)[i := fs]\<rparr>)"
    using 1 2 3 4 5 6 by blast
  have B: "(\<forall>c1. i < length (callers c1) \<and> callers c1 ! i = StopPoll # StartPoll # fs \<and>
           \<not> aborted (pollThread (chan c1)) \<and> \<not> channelGuard (chan c1) \<longrightarrow>
           (\<not> connectionInProgress (chan c1) \<or> stopped (chan c1) \<longrightarrow>
              run [Run i, Run i] c1 =
                Some \<lparr>chan = startPoll (fst (stopPoll (chan c1))),
                      callers = (callers c1)[i := fs]\<rparr>
              \<and> \<not> stopped (startPoll (fst (stopPoll (chan c1))))
              \<and> taskPosted (startPoll (fst (stopPoll (chan c1))))
              \<and> io (startPoll (fst (stopPoll (chan c1)))) = io (chan c1) + 1) \<and>
           (connectionInProgress (chan c1) \<and> \<not> stopped (chan c1) \<longrightarrow>
              step (Run i) c1 =
                Some \<lparr>chan = (chan c1)\<lparr>stopped := True,
                         trace := trace (chan c1) @
                           [(False, Log INFO ''Stopping poll future..''),
                            (True, CloseConnection)]\<rparr>,
                      callers = (callers c1)[i := StopPollWait # StartPoll # fs]\<rparr>))"
    using 7 8 by blast
  have C: "(\<forall>c2. i < length (callers c2) \<and> callers c2 ! i = StopPollWait # StartPoll # fs \<and>
           \<not> aborted (pollThread (chan c2)) \<and> \<not> channelGuard (chan c2) \<longrightarrow>
           (connectionInProgress (chan c2) \<longrightarrow> step (Run i) c2 = Some c2) \<and>
           (\<not> connectionInProgress (chan c2) \<longrightarrow>
              run [Run i, Run i] c2 =
                Some \<lparr>chan = startPoll (chan c2), callers = (callers c2)[i := fs]\<rparr>
              \<and> \<not> stopped (startPoll (chan c2))
              \<and> (stopped (chan c2) \<longrightarrow>
                   taskPosted (startPoll (chan c2)) \<and>
                   io (startPoll (chan c2)) = io (chan c2) + 1)))"
    using 9 10 by blast
  from A B C show ?thesis by (elim conjE, intro conjI) assumption+
qed

theorem sync_restarts_or_logs_witness:
  "step (Run 0) \<lparr>chan = DefaultOperationLongPollChannel keys0, callers = [[Sync PROFILE]]\<rparr> =
     Some \<lparr>chan = (DefaultOperationLongPollChannel keys0)
                    \<lparr>trace := [(True, Log WARN ''Can't sync channel %1%. Server is null'')]\<rparr>,
           callers = [[]]\<rparr>
   \<and> step (Run 0) \<lparr>chan = DefaultOperationLongPollChannel keys0, callers = [[SyncAll]]\<rparr> =
       Some \<lparr>chan = (DefaultOperationLongPollChannel keys0)
                      \<lparr>trace := [(True, Log WARN ''Can't sync channel %1%. Server is null'')]\<rparr>,
             callers = [[]]\<rparr>
   \<and> step (Run 0) \<lparr>chan = armed, callers = [[Sync (OtherTransportType 0)]]\<rparr> =
       Some \<lparr>chan = armed\<lparr>trace :=
                 [(False, Log ERROR ''Unsupported transport type for channel %1%'')]\<rparr>,
             callers = [[]]\<rparr>
   \<and> run [Run 0, Run 0, Run 0] \<lparr>chan = armed, callers = [[Sync USER]]\<rparr> =
       Some \<lparr>chan = startPoll (fst (stopPoll armed)), callers = [[]]\<rparr>
   \<and> \<not> stopped (startPoll (fst (stopPoll armed)))
   \<and> io (startPoll (fst (stopPoll armed))) = 2
   \<and> (\<exists>c2. run [Run 0, Run 0, Run 0, Work env_send_throws, Work env_ok]
                \<lparr>chan = in_flight, callers = [[Sync USER]]\<rparr> = Some c2
          \<and> callers c2 = [[StopPollWait, StartPoll]]
          \<and> stopped (chan c2) \<and> \<not> connectionInProgress (chan c2)
          \<and> run [Run 0, Run 0] c2 = Some \<lparr>chan = startPoll (chan c2), callers = [[]]\<rparr>
          \<and> \<not> stopped (startPoll (chan c2)) \<and> taskPosted (startPoll (chan c2)))"
proof -
  let ?d = "DefaultOperationLongPollChannel keys0"
  have h: "0 < length (callers \<lparr>chan = ?d, callers = [[f]]\<rparr>)"
    "\<not> aborted (pollThread (chan \<lparr>chan = ?d, callers = [[f]]\<rparr>))"
    "\<not> channelGuard (chan \<lparr>chan = ?d, callers = [[f]]\<rparr>)" for f
    by (simp_all add: example_defs)
  have g: "0 < length (callers \<lparr>chan = armed, callers = [[f]]\<rparr>)"
    "\<not> aborted (pollThread (chan \<lparr>chan = armed, callers = [[f]]\<rparr>))"
    "\<not> channelGuard (chan \<lparr>chan = armed, callers = [[f]]\<rparr>)" for f
    by (simp_all add: run_defs)
  have up: "map_of SUPPORTED_TYPES PROFILE = Some BIDIRECTIONAL"
    "map_of SUPPORTED_TYPES USER = Some BIDIRECTIONAL"
    "map_of SUPPORTED_TYPES (OtherTransportType 0) = None"
    by (simp_all add: SUPPORTED_TYPES_def)
  have n: "currentServer ?d = None" "currentServer armed \<noteq> None"
    "\<not> connectionInProgress armed"
    by (simp_all add: run_defs)
  from sync_restarts_or_logs[OF h, of "Sync PROFILE" PROFILE "[]"] up n
  have a: "step (Run 0) \<lparr>chan = ?d, callers = [[Sync PROFILE]]\<rparr> =
     Some \<lparr>chan = ?d\<lparr>trace := [(True, Log WARN ''Can't sync channel %1%. Server is null'')]\<rparr>,
           callers = [[]]\<rparr>"
    by (simp add: example_defs)
  from sync_restarts_or_logs[OF h, of SyncAll _ "[]"] n
  have b: "step (Run 0) \<lparr>chan = ?d, callers = [[SyncAll]]\<rparr> =
     Some \<lparr>chan = ?d\<lparr>trace := [(True, Log WARN ''Can't sync channel %1%. Server is null'')]\<rparr>,
           callers = [[]]\<rparr>"
    by (simp add: example_defs)
  from sync_restarts_or_logs[OF g, of "Sync (OtherTransportType 0)" "OtherTransportType 0" "[]"] up
  have c: "step (Run 0) \<lparr>chan = armed, callers = [[Sync (OtherTransportType 0)]]\<rparr> =
       Some \<lparr>chan = armed\<lparr>trace :=
                 [(False, Log ERROR ''Unsupported transport type for channel %1%'')]\<rparr>,
             callers = [[]]\<rparr>"
    by (simp add: run_defs)
  from sync_restarts_or_logs[OF g, of "Sync USER" USER "[]"] up n
  have d: "run [Run 0, Run 0, Run 0] \<lparr>chan = armed, callers = [[Sync USER]]\<rparr> =
       Some \<lparr>chan = startPoll (fst (stopPoll armed)), callers = [[]]\<rparr>
   \<and> \<not> stopped (startPoll (fst (stopPoll armed)))
   \<and> io (startPoll (fst (stopPoll armed))) = io armed + 1"
    by (simp del: run.simps)
  have v: "io armed + 1 = 2" by (simp add: run_defs)
  let ?f = "\<lparr>chan = in_flight, callers = [[Sync USER]]\<rparr>"
  let ?f1 = "\<lparr>chan = in_flight, callers = [[StopPoll, StartPoll]]\<rparr>"
  let ?w = "\<lparr>chan = in_flight\<lparr>stopped := True,
                 trace := [(False, Log INFO ''Stopping poll future..''), (True, CloseConnection)]\<rparr>,
              callers = [[StopPollWait, StartPoll]]\<rparr>"
  have hf: "0 < length (callers ?f)" "\<not> aborted (pollThread (chan ?f))"
    "\<not> channelGuard (chan ?f)"
    by (simp_all add: example_defs)
  note thf = sync_restarts_or_logs[OF hf, where t = USER and fs = "[]"]
  have nf: "callers ?f ! 0 = Sync USER # []" "currentServer (chan ?f) \<noteq> None"
    by (simp_all add: example_defs)
  from thf nf up have s1: "step (Run 0) ?f = Some ?f1" by simp
  have p1: "0 < length (callers ?f1)" "callers ?f1 ! 0 = StopPoll # StartPoll # []"
    "\<not> aborted (pollThread (chan ?f1))" "\<not> channelGuard (chan ?f1)"
    "connectionInProgress (chan ?f1)" "\<not> stopped (chan ?f1)"
    by (simp_all add: example_defs)
  from thf p1 have s2: "step (Run 0) ?f1 = Some ?w"
    by (simp add: example_defs)
  have p2: "0 < length (callers ?w)" "callers ?w ! 0 = StopPollWait # StartPoll # []"
    "\<not> aborted (pollThread (chan ?w))" "\<not> channelGuard (chan ?w)"
    "connectionInProgress (chan ?w)"
    by (simp_all add: example_defs)
  from thf p2 have s3: "step (Run 0) ?w = Some ?w" by blast
  obtain c2 where c2: "run [Work env_send_throws, Work env_ok] ?w = Some c2"
    and g: "callers c2 = [[StopPollWait, StartPoll]]"
      "stopped (chan c2)" "\<not> connectionInProgress (chan c2)"
      "\<not> aborted (pollThread (chan c2))" "\<not> channelGuard (chan c2)"
    by (simp add: model_defs example_defs)
  from s1 s2 s3 c2
  have r: "run [Run 0, Run 0, Run 0, Work env_send_throws, Work env_ok] ?f = Some c2"
    by simp
  from g have p3: "0 < length (callers c2)"
    "callers c2 ! 0 = StopPollWait # StartPoll # []" by simp_all
  from thf p3 g
  have "run [Run 0, Run 0] c2 =
          Some \<lparr>chan = startPoll (chan c2), callers = (callers c2)[0 := []]\<rparr>
        \<and> \<not> stopped (startPoll (chan c2)) \<and> taskPosted (startPoll (chan c2))"
    by blast
  with g have e: "run [Run 0, Run 0] c2 = Some \<lparr>chan = startPoll (chan c2), callers = [[]]\<rparr>
        \<and> \<not> stopped (startPoll (chan c2)) \<and> taskPosted (startPoll (chan c2))"
    by simp
  from a b c d v have old: "step (Run 0) \<lparr>chan = DefaultOperationLongPollChannel keys0, callers = [[Sync PROFILE]]\<rparr> =
     Some \<lparr>chan = (DefaultOperationLongPollChannel keys0)
                    \<lparr>trace := [(True, Log WARN ''Can't sync channel %1%. Server is null'')]\<rparr>,
           callers = [[]]\<rparr>
   \<and> step (Run 0) \<lparr>chan = DefaultOperationLongPollChannel keys0, callers = [[SyncAll]]\<rparr> =
       Some \<lparr>chan = (DefaultOperationLongPollChannel keys0)
                      \<lparr>trace := [(True, Log WARN ''Can't sync channel %1%. Server is null'')]\<rparr>,
             callers = [[]]\<rparr>
   \<and> step (Run 0) \<lparr>chan = armed, callers = [[Sync (OtherTransportType 0)]]\<rparr> =
       Some \<lparr>chan = armed\<lparr>trace :=
                 [(False, Log ERROR ''Unsupported transport type for channel %1%'')]\<rparr>,
             callers = [[]]\<rparr>
   \<and> run [Run 0, Run 0, Run 0] \<lparr>chan = armed, callers = [[Sync USER]]\<rparr> =
       Some \<lparr>chan = startPoll (fst (stopPoll armed)), callers = [[]]\<rparr>
   \<and> \<not> stopped (startPoll (fst (stopPoll armed)))
   \<and> io (startPoll (fst (stopPoll armed))) = 2"
    by simp
  from old r g e show ?thesis by blast
qed

subsection \<open>The mutex and the collaborators\<close>

text \<open>
  Claim C9 as stated: the mutex is never held across a call of the multiplexer. In the
  first cycle of the configured channel, \<^verbatim>\<open>compileRequest\<close> is called with the mutex
  held; it is the only such call in the cycle.
\<close>

theorem lock_held_across_compileRequest:
  "map_option (filter held_across_collaborator \<circ> trace \<circ> chan)
     (run (setup_actions @ [Work env_ok, Work env_ok, Work env_ok, Work env_ok]) (initial keys0))
   = Some [(True, CompileRequest 1)]"
  by (simp add: run_defs)

text \<open>
  Claim C9, amended. In every reachable configuration, every call of \<^verbatim>\<open>sendRequest\<close>
  and of \<^verbatim>\<open>processResponse\<close> in the trace was made with the mutex free, and every call of
  \<^verbatim>\<open>compileRequest\<close> with the mutex held.
\<close>

theorem lock_not_held_across_send_and_demultiplexer:
  assumes "reachable keys c"
  shows "list_all lock_discipline (trace (chan c))"
  using assms
  by (induction rule: reachable.induct)
     (auto simp: initial_def DefaultOperationLongPollChannel_def dest: discipline_step)

theorem lock_not_held_across_send_and_demultiplexer_witness:
  "\<exists>c. run (setup_actions @ [Work env_ok, Work env_ok, Work env_ok, Work env_ok]) (initial keys0)
         = Some c
       \<and> (False, SendRequest ''/EP/LongSync'' [10]) \<in> set (trace (chan c))
       \<and> list_all lock_discipline (trace (chan c))"
proof -
  obtain c where c:
    "run (setup_actions @ [Work env_ok, Work env_ok, Work env_ok, Work env_ok]) (initial keys0)
       = Some c"
    and s: "(False, SendRequest ''/EP/LongSync'' [10]) \<in> set (trace (chan c))"
    by (simp add: run_defs)
  from run_reachable[OF c reachable_initial]
  have "list_all lock_discipline (trace (chan c))"
    by (rule lock_not_held_across_send_and_demultiplexer)
  with c s show ?thesis by blast
qed

subsection \<open>The supported categories\<close>

text \<open>
  Claim C10. A lookup in \<^verbatim>\<open>SUPPORTED_TYPES\<close> finds exactly \<open>PROFILE\<close>, \<open>CONFIGURATION\<close>,
  \<open>NOTIFICATION\<close> and \<open>USER\<close> with direction \<open>BIDIRECTIONAL\<close> and \<open>EVENT\<close> with direction
  \<open>DOWN\<close>; \<^verbatim>\<open>sync(EVENT)\<close> logs the error of an unsupported transport type, changes
  nothing else and returns.
\<close>

theorem sync_EVENT_unsupported:
  "(map_of SUPPORTED_TYPES t = Some d \<longleftrightarrow>
      ((t = PROFILE \<or> t = CONFIGURATION \<or> t = NOTIFICATION \<or> t = USER) \<and> d = BIDIRECTIONAL)
      \<or> (t = EVENT \<and> d = DOWN))
   \<and> sync EVENT s =
       (s\<lparr>trace := trace s @
            [(channelGuard s, Log ERROR ''Unsupported transport type for channel %1%'')]\<rparr>, [])"
  by (auto simp: SUPPORTED_TYPES_def sync_def prim_defs)

end

